theory Spec2Isabelle
  imports Main
begin

section \<open>Values exchanged with the page and the remote services\<close>

text \<open>
  The program is the browser script \<^verbatim>\<open>webapp/static/main.js\<close>. Strings are byte
  strings (UTF-8); the one non-ASCII character of the script's messages, the
  horizontal ellipsis U+2026, is spelled out as its three bytes.
\<close>

definition ellipsis :: string where
  "ellipsis = [CHR 0xE2, CHR 0x80, CHR 0xA6]"

text \<open>
  Edits are opaque to the script: they are JSON values that it forwards. Numbers are
  integers here (floating point is not modelled). The fields of \<open>JObj\<close> are the own
  properties of the object, in order, with distinct keys.
\<close>

datatype json =
    JNull
  | JBool bool
  | JNum int
  | JStr string
  | JArr "json list"
  | JObj "(string \<times> json) list"

text \<open>JavaScript's truthiness of a JSON value; \<open>undefined\<close> is \<open>None\<close>.\<close>

fun truthy :: "json \<Rightarrow> bool" where
  "truthy JNull = False"
| "truthy (JBool b) = b"
| "truthy (JNum n) = (n \<noteq> 0)"
| "truthy (JStr s) = (s \<noteq> [])"
| "truthy (JArr xs) = True"
| "truthy (JObj kvs) = True"

definition truthy_opt :: "json option \<Rightarrow> bool" where
  "truthy_opt v = (case v of None \<Rightarrow> False | Some j \<Rightarrow> truthy j)"

text \<open>
  \<open>v.edits\<close> on a value that is neither \<open>null\<close> nor \<open>undefined\<close>: the own property
  of an object, \<open>undefined\<close> on anything else.
\<close>

fun get_edits :: "json \<Rightarrow> json option" where
  "get_edits (JObj kvs) = map_of kvs ''edits''"
| "get_edits v = None"

text \<open>\<open>Array.isArray(v) && v.length > 0\<close>.\<close>

fun nonempty_array :: "json option \<Rightarrow> bool" where
  "nonempty_array (Some (JArr xs)) = (xs \<noteq> [])"
| "nonempty_array v = False"

text \<open>
  The text of the Edits panel is kept by what \<open>JSON.parse\<close> makes of it: the empty
  text, a non-empty text that \<open>JSON.parse\<close> rejects, or a text that it reads as the
  value \<open>v\<close>. \<open>JSON.stringify(v, null, 2)\<close> writes a text of the third kind; of
  \<open>undefined\<close> it writes the text \<^verbatim>\<open>undefined\<close>, which is of the second kind.
\<close>

datatype panel_text = Blank | Malformed | Wellformed json

definition stringify :: "json option \<Rightarrow> panel_text" where
  "stringify v = (case v of None \<Rightarrow> Malformed | Some j \<Rightarrow> Wellformed j)"

text \<open>\<open>JSON.parse(text || '{}')\<close>; \<open>None\<close> is the SyntaxError.\<close>

definition JSON_parse_or_empty :: "panel_text \<Rightarrow> json option" where
  "JSON_parse_or_empty t =
     (case t of Blank \<Rightarrow> Some (JObj []) | Malformed \<Rightarrow> None | Wellformed v \<Rightarrow> Some v)"

text \<open>String concatenation with a possibly absent field, and \<open>field || 'unknown'\<close>.\<close>

definition js_string :: "string option \<Rightarrow> string" where
  "js_string v = (case v of None \<Rightarrow> ''undefined'' | Some s \<Rightarrow> s)"

definition or_unknown :: "string option \<Rightarrow> string" where
  "or_unknown v = (case v of None \<Rightarrow> ''unknown'' | Some s \<Rightarrow> if s = [] then ''unknown'' else s)"

subsection \<open>Cross-check reports\<close>

text \<open>
  A field that the script reads as \<open>x || default\<close> is kept as a plain value: the empty
  string, the number 0 and the empty sequence stand for an absent field as well,
  since \<open>||\<close> treats them alike. \<open>counts_pass\<close> and \<open>counts_fail\<close> are \<open>counts.pass\<close> and
  \<open>counts.fail\<close>.
\<close>

record test_outcome =
  name :: string
  description :: string
  status :: string
  reason :: string

record report =
  overall :: string
  counts_pass :: int
  counts_fail :: int
  summary :: string
  tests :: "test_outcome list"

subsection \<open>Requests and replies\<close>

datatype request =
    Analyze_req string string string string
  | Apply_req string json
  | Crosscheck_req string string string
  | Fix_req string "report option" string string
  | Vision_req string string "string option" string string
  | Run_req string

record analyze_reply =
  an_ok :: bool
  an_error :: "string option"
  an_result :: "json option"

record apply_reply =
  ap_ok :: bool
  ap_error :: "string option"
  ap_code :: string

record crosscheck_reply =
  cc_ok :: bool
  cc_report :: report

record fix_reply =
  fx_ok :: bool
  fx_error :: "string option"
  fx_code :: "string option"
  fx_edits :: "json option"

record vision_reply =
  vi_ok :: bool
  vi_error :: "string option"
  vi_edits :: "json option"

record run_reply =
  rn_ok :: bool
  rn_error :: "string option"

text \<open>
  \<open>await fetch(...)\<close> followed by \<open>await res.json()\<close> either throws (the network
  fails, or the body is not JSON) or yields the reply.
\<close>

datatype 'a outcome = Throws | Reply 'a

text \<open>
  The remote services. Each one is called at most once in a run, so a service is
  a function of the request it receives.
\<close>

record remote =
  api_analyze :: "string \<Rightarrow> string \<Rightarrow> string \<Rightarrow> string \<Rightarrow> analyze_reply outcome"
  api_apply :: "string \<Rightarrow> json \<Rightarrow> apply_reply outcome"
  api_crosscheck :: "string \<Rightarrow> string \<Rightarrow> string \<Rightarrow> crosscheck_reply outcome"
  api_fix_from_crosscheck :: "string \<Rightarrow> report option \<Rightarrow> string \<Rightarrow> string \<Rightarrow> fix_reply outcome"
  api_vision_analyze :: "string \<Rightarrow> string \<Rightarrow> string option \<Rightarrow> string \<Rightarrow> string \<Rightarrow> vision_reply outcome"
  api_run :: "string \<Rightarrow> run_reply outcome"

section \<open>The page\<close>

subsection \<open>The cross-check modal\<close>

record display =
  overallBadge_text :: string
  overallBadge_class :: "string list"
  countPass_text :: string
  countFail_text :: string
  crossSummary_text :: string
  testList :: "string list"
  modalOverlay_hidden :: bool

text \<open>
  \<open>testList\<close> holds, for each \<open>li\<close> of class \<open>test\<close> appended to the list, the markup
  assigned to its \<open>innerHTML\<close>.
\<close>

subsection \<open>The state of a run\<close>

datatype event =
    Fetch request
  | SetValue string
  | ShowNotify string
  | HideNotify
  | Alert string
  | Rendered report

record world =
  editor_value :: string
  filename_input :: string
  model_input :: string
  timeout_input :: string
  visionPrompt_input :: string
  lastScreenshotBase64 :: "string option"
  edits_panel :: panel_text
  notify_text :: string
  notify_hidden :: bool
  modal :: display
  trace :: "event list"

text \<open>
  \<open>trace\<close> is the history of the run, oldest first: the remote calls issued, the
  writes to the editor, the status messages, the alerts and the renders.
  An async function settles by returning or by an uncaught exception.
\<close>

datatype completion = Returned | Rejected

definition log :: "event \<Rightarrow> world \<Rightarrow> world" where
  "log e w = w\<lparr>trace := trace w @ [e]\<rparr>"

definition showNotify :: "string \<Rightarrow> world \<Rightarrow> world" where
  "showNotify msg w = log (ShowNotify msg) (w\<lparr>notify_text := msg, notify_hidden := False\<rparr>)"

definition hideNotify :: "world \<Rightarrow> world" where
  "hideNotify w = log HideNotify (w\<lparr>notify_hidden := True\<rparr>)"

definition alert :: "string \<Rightarrow> world \<Rightarrow> world" where
  "alert msg w = log (Alert msg) w"

definition setValue :: "string \<Rightarrow> world \<Rightarrow> world" where
  "setValue s w = log (SetValue s) (w\<lparr>editor_value := s\<rparr>)"

definition fetch :: "request \<Rightarrow> world \<Rightarrow> world" where
  "fetch r w = log (Fetch r) w"

section \<open>Rendering a report\<close>

text \<open>
  \<open>String.prototype.toLowerCase\<close> on strings of ASCII characters, the labels of the data
  model (\<open>pass\<close>, \<open>fail\<close>, \<open>mixed\<close>) among them. The bytes of other characters are left as
  they are, where the platform lowers the letters of other alphabets as well.
\<close>

definition lower_char :: "char \<Rightarrow> char" where
  "lower_char c =
     (let n = (of_char c :: nat) in if 65 \<le> n \<and> n \<le> 90 then char_of (n + 32) else c)"

definition toLowerCase :: "string \<Rightarrow> string" where
  "toLowerCase s = map lower_char s"

text \<open>\<open>s || d\<close> on strings.\<close>

definition or_else :: "string \<Rightarrow> string \<Rightarrow> string" where
  "or_else s d = (if s = [] then d else s)"

text \<open>
  The decimal numeral of an integer, as a template literal prints a count: a number
  of tests, far below \<open>2\<^sup>5\<^sup>3\<close>, up to which the platform's numbers hold every integer
  and print all its digits.
\<close>

fun digits :: "nat \<Rightarrow> nat \<Rightarrow> string" where
  "digits 0 n = []"
| "digits (Suc fuel) n =
     (if n < 10 then [char_of (48 + n)]
      else digits fuel (n div 10) @ [char_of (48 + n mod 10)])"

definition show_int :: "int \<Rightarrow> string" where
  "show_int i =
     (if i < 0 then CHR ''-'' # digits (Suc (nat (- i))) (nat (- i))
      else digits (Suc (nat i)) (nat i))"

text \<open>
  \<open>escapeHtml\<close>: \<open>String(str).replace(/[&<>"]/g, s => table[s])\<close> replaces every
  character of the class by what the callback returns for it, the entry of the table
  (the text \<^verbatim>\<open>undefined\<close> where the table has none), and keeps the other characters.
\<close>

definition in_class :: "char \<Rightarrow> bool" where
  "in_class c = (c = CHR ''&'' \<or> c = CHR ''<'' \<or> c = CHR ''>'' \<or> c = CHR 0x22)"

definition entity_table :: "(char \<times> string) list" where
  "entity_table =
     [(CHR ''&'', ''&amp;''), (CHR ''<'', ''&lt;''), (CHR ''>'', ''&gt;''), (CHR 0x22, ''&quot;'')]"

definition replacement :: "char \<Rightarrow> string" where
  "replacement c = (case map_of entity_table c of None \<Rightarrow> ''undefined'' | Some e \<Rightarrow> e)"

fun escapeHtml :: "string \<Rightarrow> string" where
  "escapeHtml [] = []"
| "escapeHtml (c # cs) = (if in_class c then replacement c else [c]) @ escapeHtml cs"

text \<open>The template literal assigned to \<open>li.innerHTML\<close>.\<close>

definition nl6 :: string where
  "nl6 = CHR 0x0A # ''      ''"

definition nl4 :: string where
  "nl4 = CHR 0x0A # ''    ''"

definition li_markup :: "test_outcome \<Rightarrow> string" where
  "li_markup t =
     (let status = toLowerCase (or_else (status t) ''fail'') in
      nl6 @ ''<span class='' @ [CHR 0x22] @ ''dot '' @ status @ [CHR 0x22] @ ''></span>'' @
      nl6 @ ''<span class='' @ [CHR 0x22] @ ''name'' @ [CHR 0x22] @ ''>'' @
        escapeHtml (or_else (name t) ''Test'') @ ''</span>'' @
      nl6 @ ''<span class='' @ [CHR 0x22] @ ''desc'' @ [CHR 0x22] @ ''>'' @
        escapeHtml (or_else (description t) '''') @ ''</span>'' @
      nl6 @ ''<span class='' @ [CHR 0x22] @ ''reason'' @ [CHR 0x22] @ ''>'' @
        escapeHtml (or_else (reason t) '''') @ ''</span>'' @
      nl4)"

text \<open>\<open>classList.add\<close> on a list of class names.\<close>

definition classList_add :: "string \<Rightarrow> string list \<Rightarrow> string list" where
  "classList_add c cs = (if c \<in> set cs then cs else cs @ [c])"

text \<open>The loop \<open>for (const t of tests) { ...; list.appendChild(li) }\<close>.\<close>

fun append_tests :: "test_outcome list \<Rightarrow> string list \<Rightarrow> string list" where
  "append_tests [] list = list"
| "append_tests (t # ts) list = append_tests ts (list @ [li_markup t])"

definition openCrossModal :: "display \<Rightarrow> display" where
  "openCrossModal d = d\<lparr>modalOverlay_hidden := False\<rparr>"

definition renderCrosscheck :: "report \<Rightarrow> display \<Rightarrow> display" where
  "renderCrosscheck payload d0 =
     (let d1 = d0\<lparr>testList := []\<rparr>;
          d2 = d1\<lparr>overallBadge_class := [''badge'']\<rparr>;
          overall = toLowerCase (or_else (overall payload) ''mixed'');
          d3 = d2\<lparr>overallBadge_text := overall\<rparr>;
          d4 = d3\<lparr>overallBadge_class :=
                 classList_add
                   (if overall = ''pass'' then ''pass''
                    else if overall = ''fail'' then ''fail'' else ''mixed'')
                   (overallBadge_class d3)\<rparr>;
          d5 = d4\<lparr>countPass_text := show_int (counts_pass payload) @ '' passed''\<rparr>;
          d6 = d5\<lparr>countFail_text := show_int (counts_fail payload) @ '' failed''\<rparr>;
          d7 = d6\<lparr>crossSummary_text := or_else (summary payload) ''''\<rparr>;
          d8 = d7\<lparr>testList := append_tests (tests payload) (testList d7)\<rparr>
      in openCrossModal d8)"

definition render :: "report \<Rightarrow> world \<Rightarrow> world" where
  "render payload w = log (Rendered payload) (w\<lparr>modal := renderCrosscheck payload (modal w)\<rparr>)"

section \<open>Reading the modal back\<close>

subsection \<open>The platform's reading of markup\<close>

text \<open>
  Assigning to \<open>innerHTML\<close> hands the markup to the platform's HTML parser, and
  \<open>querySelector\<close>, \<open>classList\<close> and \<open>textContent\<close> read the tree it built. The
  parser is not part of the script; it is described here, after the HTML Standard
  (fragment parsing with an \<open>li\<close> element as context: the tokenizer starts in the data
  state and the tree is built in the insertion mode "in body"), for the markup that
  matters to \<open>escapeHtml\<close>: character data, the character references
  \<^verbatim>\<open>&amp;\<close>, \<^verbatim>\<open>&lt;\<close>, \<^verbatim>\<open>&gt;\<close> and \<^verbatim>\<open>&quot;\<close>, an ampersand that starts no reference, and
  properly nested \<open>span\<close> elements whose attributes are written \<^verbatim>\<open>name="value"\<close>. On any
  other markup the result is \<open>None\<close>: the description says nothing about it.
\<close>

text \<open>
  The input stream is preprocessed before it is tokenized: newlines are normalised,
  every CR LF pair and every other CR becoming one LF.
\<close>

fun normalize_newlines :: "string \<Rightarrow> string" where
  "normalize_newlines [] = []"
| "normalize_newlines [c] = [if c = CHR 0x0D then CHR 0x0A else c]"
| "normalize_newlines (c # d # cs) =
     (if c = CHR 0x0D then
        CHR 0x0A # (if d = CHR 0x0A then normalize_newlines cs else normalize_newlines (d # cs))
      else c # normalize_newlines (d # cs))"

datatype token = TChar char | TStart string "(string \<times> string) list" | TEnd string

text \<open>
  The states of the tokenizer. A tag under construction carries its name \<open>n\<close> and the
  attributes \<open>as\<close> read so far, an attribute its name \<open>a\<close> and the value \<open>v\<close> read so far,
  a character reference the name \<open>r\<close> read after the ampersand.
\<close>

datatype tstate =
    Data
  | CharRef string
  | TagOpen
  | EndTagOpen
  | EndTagName string
  | TagName string
  | BeforeAttrName string "(string \<times> string) list"
  | AttrName string "(string \<times> string) list" string
  | BeforeAttrValue string "(string \<times> string) list" string
  | AttrValue string "(string \<times> string) list" string string
  | AttrCharRef string "(string \<times> string) list" string string string
  | AfterAttrValue string "(string \<times> string) list"

text \<open>
  The white space of the tokenizer, U+0009, U+000A, U+000C and U+0020, and U+000D,
  which is ASCII white space too where a class attribute is split.
\<close>

definition is_html_space :: "char \<Rightarrow> bool" where
  "is_html_space c = (of_char c \<in> {9, 10, 12, 13, 32 :: nat})"

definition is_alnum :: "char \<Rightarrow> bool" where
  "is_alnum c =
     (let n = (of_char c :: nat)
      in (48 \<le> n \<and> n \<le> 57) \<or> (65 \<le> n \<and> n \<le> 90) \<or> (97 \<le> n \<and> n \<le> 122))"

definition is_alpha :: "char \<Rightarrow> bool" where
  "is_alpha c =
     (let n = (of_char c :: nat) in (65 \<le> n \<and> n \<le> 90) \<or> (97 \<le> n \<and> n \<le> 122))"

text \<open>The named character references of the description, each closed by a semicolon.\<close>

definition char_ref :: "string \<Rightarrow> char option" where
  "char_ref r =
     (if r = ''amp'' then Some (CHR ''&'')
      else if r = ''lt'' then Some (CHR ''<'')
      else if r = ''gt'' then Some (CHR ''>'')
      else if r = ''quot'' then Some (CHR 0x22)
      else None)"

text \<open>U+FFFD, the replacement character, in UTF-8.\<close>

definition replacement_character :: string where
  "replacement_character = [CHR 0xEF, CHR 0xBF, CHR 0xBD]"

text \<open>A token emitted before the tokens of the rest of the input.\<close>

fun emit :: "token \<Rightarrow> token list option \<Rightarrow> token list option" where
  "emit t None = None"
| "emit t (Some ts) = Some (t # ts)"

text \<open>
  The tokenizer. In the data state every character other than \<^verbatim>\<open><\<close> and \<^verbatim>\<open>&\<close> is emitted
  as it is, NUL included. An ampersand followed by an alphanumeric character opens a
  named reference; followed by \<^verbatim>\<open>#\<close>, a numeric one, which is not described; followed
  by anything else, or by nothing, it stands for itself, and the character after it is
  read again in the state the ampersand was met in. In an attribute value NUL is
  replaced by U+FFFD.
\<close>

function (sequential) tokens :: "tstate \<Rightarrow> string \<Rightarrow> token list option" where
  "tokens Data [] = Some []"
| "tokens Data (c # cs) =
     (if c = CHR ''<'' then tokens TagOpen cs
      else if c = CHR ''&'' then tokens (CharRef []) cs
      else emit (TChar c) (tokens Data cs))"
| "tokens (CharRef r) [] = (if r = [] then Some [TChar (CHR ''&'')] else None)"
| "tokens (CharRef r) (c # cs) =
     (if is_alnum c then tokens (CharRef (r @ [c])) cs
      else if r = [] then
        (if c = CHR ''#'' then None else emit (TChar (CHR ''&'')) (tokens Data (c # cs)))
      else if c = CHR '';'' then
        (case char_ref r of
           None \<Rightarrow> None
         | Some x \<Rightarrow> emit (TChar x) (tokens Data cs))
      else None)"
| "tokens TagOpen (c # cs) =
     (if c = CHR ''/'' then tokens EndTagOpen cs
      else if is_alpha c then tokens (TagName [lower_char c]) cs
      else None)"
| "tokens EndTagOpen (c # cs) =
     (if is_alpha c then tokens (EndTagName [lower_char c]) cs else None)"
| "tokens (EndTagName n) (c # cs) =
     (if c = CHR ''>'' then emit (TEnd n) (tokens Data cs)
      else if is_alnum c then tokens (EndTagName (n @ [lower_char c])) cs
      else None)"
| "tokens (TagName n) (c # cs) =
     (if c = CHR ''>'' then emit (TStart n []) (tokens Data cs)
      else if is_html_space c then tokens (BeforeAttrName n []) cs
      else if is_alnum c then tokens (TagName (n @ [lower_char c])) cs
      else None)"
| "tokens (BeforeAttrName n as) (c # cs) =
     (if c = CHR ''>'' then emit (TStart n as) (tokens Data cs)
      else if is_html_space c then tokens (BeforeAttrName n as) cs
      else if is_alnum c then tokens (AttrName n as [lower_char c]) cs
      else None)"
| "tokens (AttrName n as a) (c # cs) =
     (if c = CHR ''='' then tokens (BeforeAttrValue n as a) cs
      else if is_alnum c then tokens (AttrName n as (a @ [lower_char c])) cs
      else None)"
| "tokens (BeforeAttrValue n as a) (c # cs) =
     (if c = CHR 0x22 then tokens (AttrValue n as a []) cs else None)"
| "tokens (AttrValue n as a v) (c # cs) =
     (if c = CHR 0x22 then tokens (AfterAttrValue n (as @ [(a, v)])) cs
      else if c = CHR ''&'' then tokens (AttrCharRef n as a v []) cs
      else if c = CHR 0x00 then tokens (AttrValue n as a (v @ replacement_character)) cs
      else tokens (AttrValue n as a (v @ [c])) cs)"
| "tokens (AttrCharRef n as a v r) (c # cs) =
     (if is_alnum c then tokens (AttrCharRef n as a v (r @ [c])) cs
      else if r = [] then
        (if c = CHR ''#'' then None else tokens (AttrValue n as a (v @ ''&'')) (c # cs))
      else if c = CHR '';'' then
        (case char_ref r of
           None \<Rightarrow> None
         | Some x \<Rightarrow> tokens (AttrValue n as a (v @ [x])) cs)
      else None)"
| "tokens (AfterAttrValue n as) (c # cs) =
     (if c = CHR ''>'' then emit (TStart n as) (tokens Data cs)
      else if is_html_space c then tokens (BeforeAttrName n as) cs
      else None)"
| "tokens st [] = None"
  by pat_completeness auto
termination
  by (relation "measure (\<lambda>(st, s). 2 * length s +
        (case st of CharRef r \<Rightarrow> 1 | AttrCharRef n as a v r \<Rightarrow> 1 | _ \<Rightarrow> 0))")
    auto

text \<open>
  The tree: character data, one leaf for each character, and elements with their
  attributes and children. A NUL character token is ignored; every other character
  token is inserted; a \<open>span\<close> start tag opens an element and the matching end tag
  closes it.
\<close>

datatype node = Txt char | Elem string "(string \<times> string) list" "node list"

type_synonym frame = "string \<times> (string \<times> string) list \<times> node list"

fun build :: "token list \<Rightarrow> frame list \<Rightarrow> node list \<Rightarrow> node list option" where
  "build [] [] acc = Some (rev acc)"
| "build [] (f # fs) acc = None"
| "build (TChar c # ts) st acc =
     (if c = CHR 0x00 then build ts st acc else build ts st (Txt c # acc))"
| "build (TStart n a # ts) st acc =
     (if n = ''span'' then build ts ((n, a, acc) # st) [] else None)"
| "build (TEnd n # ts) [] acc = None"
| "build (TEnd n # ts) ((m, a, acc') # st) acc =
     (if n = m then build ts st (Elem m a (rev acc) # acc') else None)"

definition parse_fragment :: "string \<Rightarrow> node list option" where
  "parse_fragment markup =
     (case tokens Data (normalize_newlines markup) of
        None \<Rightarrow> None
      | Some ts \<Rightarrow> build ts [] [])"

fun textContent :: "node \<Rightarrow> string" where
  "textContent (Txt c) = [c]"
| "textContent (Elem n a kids) = concat (map textContent kids)"

text \<open>The elements of a subtree in document order, its root first.\<close>

fun elements :: "node \<Rightarrow> node list" where
  "elements (Txt c) = []"
| "elements (Elem n a kids) = Elem n a kids # concat (map elements kids)"

fun children :: "node \<Rightarrow> node list" where
  "children (Txt c) = []"
| "children (Elem n a kids) = kids"

text \<open>The class attribute, split on ASCII whitespace.\<close>

fun split_ws :: "string \<Rightarrow> string \<Rightarrow> string list" where
  "split_ws w [] = (if w = [] then [] else [w])"
| "split_ws w (c # cs) =
     (if is_html_space c then (if w = [] then split_ws [] cs else w # split_ws [] cs)
      else split_ws (w @ [c]) cs)"

fun classList :: "node \<Rightarrow> string list" where
  "classList (Txt c) = []"
| "classList (Elem n a kids) =
     (case map_of a ''class'' of None \<Rightarrow> [] | Some v \<Rightarrow> split_ws [] v)"

definition has_class :: "string \<Rightarrow> node \<Rightarrow> bool" where
  "has_class c e = (c \<in> set (classList e))"

text \<open>\<open>e.querySelector('.c')\<close>: the first descendant of \<open>e\<close> of class \<open>c\<close>.\<close>

definition querySelector :: "string \<Rightarrow> node \<Rightarrow> node option" where
  "querySelector c e = find (has_class c) (concat (map elements (children e)))"

subsection \<open>\<open>trim\<close> and \<open>parseInt\<close>\<close>

text \<open>
  The length in bytes of the white space or line terminator character that starts
  a UTF-8 string, and 0 when none does: U+0009 to U+000D, U+0020, U+00A0, U+1680,
  U+2000 to U+200A, U+2028, U+2029, U+202F, U+205F, U+3000 and U+FEFF.
\<close>

definition ws3 :: "nat list \<Rightarrow> bool" where
  "ws3 bs =
     (bs = [0xE1, 0x9A, 0x80] \<or>
      (take 2 bs = [0xE2, 0x80] \<and> length bs = 3 \<and>
         ((0x80 \<le> bs ! 2 \<and> bs ! 2 \<le> 0x8A) \<or> bs ! 2 \<in> {0xA8, 0xA9, 0xAF})) \<or>
      bs = [0xE2, 0x81, 0x9F] \<or> bs = [0xE3, 0x80, 0x80] \<or> bs = [0xEF, 0xBB, 0xBF])"

definition ws_len :: "string \<Rightarrow> nat" where
  "ws_len s =
     (case s of
        [] \<Rightarrow> 0
      | c # cs \<Rightarrow>
          (let n = (of_char c :: nat) in
           if (9 \<le> n \<and> n \<le> 13) \<or> n = 32 then 1
           else if map of_char (take 2 s) = [0xC2, 0xA0 :: nat] then 2
           else if ws3 (map of_char (take 3 s)) then 3
           else 0))"

text \<open>The same at the end of the string.\<close>

definition ws_len_end :: "string \<Rightarrow> nat" where
  "ws_len_end s =
     (case rev s of
        [] \<Rightarrow> 0
      | c # cs \<Rightarrow>
          (let n = (of_char c :: nat) in
           if (9 \<le> n \<and> n \<le> 13) \<or> n = 32 then 1
           else if map of_char (rev (take 2 (rev s))) = [0xC2, 0xA0 :: nat] then 2
           else if ws3 (map of_char (rev (take 3 (rev s)))) then 3
           else 0))"

function trimStart :: "string \<Rightarrow> string" where
  "trimStart s = (if ws_len s = 0 then s else trimStart (drop (ws_len s) s))"
  by pat_completeness auto
termination
  by (relation "measure length") (auto simp: ws_len_def Let_def split: list.splits if_splits)

function trimEnd :: "string \<Rightarrow> string" where
  "trimEnd s =
     (if ws_len_end s = 0 then s else trimEnd (take (length s - ws_len_end s) s))"
  by pat_completeness auto
termination
  by (relation "measure length") (auto simp: ws_len_end_def Let_def split: list.splits if_splits)

declare trimStart.simps [simp del] trimEnd.simps [simp del]

definition trim :: "string \<Rightarrow> string" where
  "trim s = trimEnd (trimStart s)"

text \<open>
  \<open>parseInt(s, 10) || 0\<close>: leading white space, an optional sign and the longest run
  of decimal digits; without a digit the result is \<open>NaN\<close>, which \<open>||\<close> turns into 0.
\<close>

definition is_digit :: "char \<Rightarrow> bool" where
  "is_digit c = (let n = (of_char c :: nat) in 48 \<le> n \<and> n \<le> 57)"

definition digits_value :: "string \<Rightarrow> int" where
  "digits_value ds = foldl (\<lambda>acc c. 10 * acc + (int (of_char c) - 48)) 0 ds"

definition parseInt_or_0 :: "string \<Rightarrow> int" where
  "parseInt_or_0 s =
     (let s1 = trimStart s;
          neg = (take 1 s1 = ''-'');
          s2 = (if take 1 s1 = ''-'' \<or> take 1 s1 = ''+'' then drop 1 s1 else s1);
          ds = takeWhile is_digit s2
      in if ds = [] then 0 else if neg then - digits_value ds else digits_value ds)"

subsection \<open>The report read from the modal\<close>

text \<open>
  Lines 229 to 247 of \<open>fixUsingCross\<close>. \<open>document.querySelectorAll('#testList .test')\<close>
  selects, in document order, every element of class \<open>test\<close> below the list: the
  \<open>li\<close> elements that \<open>renderCrosscheck\<close> appended and whatever their markup holds of
  that class.
\<close>

definition text_of :: "node option \<Rightarrow> string" where
  "text_of e = (case e of None \<Rightarrow> [] | Some x \<Rightarrow> textContent x)"

definition test_of :: "node \<Rightarrow> test_outcome" where
  "test_of li =
     \<lparr>name = trim (text_of (querySelector ''name'' li)),
      description = trim (text_of (querySelector ''desc'' li)),
      status = (case querySelector ''dot'' li of
                  None \<Rightarrow> ''fail''
                | Some dot \<Rightarrow> (if has_class ''pass'' dot then ''pass'' else ''fail'')),
      reason = trim (text_of (querySelector ''reason'' li))\<rparr>"

definition li_element :: "node list \<Rightarrow> node" where
  "li_element kids = Elem ''li'' [(''class'', ''test'')] kids"

fun parse_items :: "string list \<Rightarrow> node list option" where
  "parse_items [] = Some []"
| "parse_items (m # ms) =
     (case parse_fragment m of
        None \<Rightarrow> None
      | Some kids \<Rightarrow> map_option (Cons (li_element kids)) (parse_items ms))"

definition extract_report :: "display \<Rightarrow> report option" where
  "extract_report d =
     (case parse_items (testList d) of
        None \<Rightarrow> None
      | Some lis \<Rightarrow>
          Some \<lparr>overall = trim (overallBadge_text d),
                counts_pass = parseInt_or_0 (trim (countPass_text d)),
                counts_fail = parseInt_or_0 (trim (countFail_text d)),
                summary = trim (crossSummary_text d),
                tests = map test_of (filter (has_class ''test'') (concat (map elements lis)))\<rparr>)"

section \<open>The workflow runs\<close>

definition msg_crosscheck :: string where
  "msg_crosscheck = ''Cross-checking'' @ ellipsis @ '' validating with hidden tests''"

text \<open>
  Line 35: \<open>(data.result && data.result.edits) ? data.result.edits : []\<close>, and
  line 91: \<open>parsed.edits || []\<close> for a \<open>parsed\<close> other than \<open>null\<close>.
\<close>

definition result_edits :: "json option \<Rightarrow> json option" where
  "result_edits result =
     (if truthy_opt result \<and> truthy_opt (get_edits (the result))
      then get_edits (the result) else Some (JArr []))"

definition edits_or_empty :: "json \<Rightarrow> json" where
  "edits_or_empty parsed =
     (if truthy_opt (get_edits parsed) then the (get_edits parsed) else JArr [])"

text \<open>\<open>analyze\<close> (lines 16 to 80 of the script).\<close>

definition analyze :: "remote \<Rightarrow> world \<Rightarrow> completion \<times> world" where
  "analyze rs w0 =
     (let code = editor_value w0;
          filename = filename_input w0;
          model = model_input w0;
          timeout = timeout_input w0;
          w1 = showNotify (''Analyzing'' @ ellipsis @ '' Debugger is analyzing the code'') w0;
          w2 = fetch (Analyze_req code filename model timeout) w1
      in case api_analyze rs code filename model timeout of
           Throws \<Rightarrow> (Rejected, w2)
         | Reply data \<Rightarrow>
            (let w3 = hideNotify w2 in
             if \<not> an_ok data
             then (Returned, alert (''Analyze error: '' @ js_string (an_error data)) w3)
             else
              (let w4 = w3\<lparr>edits_panel := stringify (an_result data)\<rparr>;
                   edits = result_edits (an_result data)
               in if nonempty_array edits then
                   (let w5 = showNotify (''Applying fixes'' @ ellipsis) w4;
                        w6 = fetch (Apply_req code (the edits)) w5
                    in case api_apply rs code (the edits) of
                         Throws \<Rightarrow> (Returned, hideNotify w6)
                       | Reply data2 \<Rightarrow>
                          (if ap_ok data2 then
                            (let w7 = setValue (ap_code data2) w6;
                                 w8 = showNotify msg_crosscheck w7;
                                 w9 = fetch (Crosscheck_req (ap_code data2) model timeout) w8
                             in case api_crosscheck rs (ap_code data2) model timeout of
                                  Throws \<Rightarrow> (Returned, hideNotify w9)
                                | Reply data3 \<Rightarrow>
                                   (if cc_ok data3
                                    then (Returned, hideNotify (render (cc_report data3) w9))
                                    else (Returned, hideNotify w9)))
                           else (Returned, hideNotify w6)))
                  else
                   (let w5 = showNotify msg_crosscheck w4;
                        w6 = fetch (Crosscheck_req code model timeout) w5
                    in case api_crosscheck rs code model timeout of
                         Throws \<Rightarrow> (Returned, hideNotify w6)
                       | Reply data3 \<Rightarrow>
                          (if cc_ok data3
                           then (Returned, hideNotify (render (cc_report data3) w6))
                           else (Returned, hideNotify w6))))))"

text \<open>\<open>applyFixes\<close> (lines 82 to 121). \<open>parsed.edits\<close> throws a TypeError on \<open>null\<close>.\<close>

definition applyFixes :: "remote \<Rightarrow> world \<Rightarrow> completion \<times> world" where
  "applyFixes rs w0 =
     (let code = editor_value w0 in
      case JSON_parse_or_empty (edits_panel w0) of
        None \<Rightarrow> (Returned, alert ''Invalid JSON in Edits.'' w0)
      | Some parsed \<Rightarrow>
         (if parsed = JNull then (Rejected, w0)
          else
           (let edits = edits_or_empty parsed;
                w1 = fetch (Apply_req code edits) w0
            in case api_apply rs code edits of
                 Throws \<Rightarrow> (Rejected, w1)
               | Reply data \<Rightarrow>
                  (if \<not> ap_ok data
                   then (Returned, alert (''Apply error: '' @ js_string (ap_error data)) w1)
                   else
                    (let w2 = setValue (ap_code data) w1;
                         model = model_input w2;
                         timeout = timeout_input w2;
                         w3 = showNotify msg_crosscheck w2;
                         w4 = fetch (Crosscheck_req (ap_code data) model timeout) w3
                     in case api_crosscheck rs (ap_code data) model timeout of
                          Throws \<Rightarrow> (Returned, hideNotify w4)
                        | Reply data2 \<Rightarrow>
                           (if cc_ok data2
                            then (Returned, hideNotify (render (cc_report data2) w4))
                            else (Returned, hideNotify w4)))))))"

text \<open>
  \<open>visionSubmit\<close> (lines 358 to 406). Line 363, \<open>lastScreenshotBase64 || null\<close>, is
  \<open>null\<close> when no screenshot was captured; line 389 tests
  \<open>visData.edits && Array.isArray(visData.edits.edits) && visData.edits.edits.length\<close>.
\<close>

definition screenshot_or_null :: "string option \<Rightarrow> string option" where
  "screenshot_or_null shot =
     (case shot of None \<Rightarrow> None | Some s \<Rightarrow> (if s = [] then None else Some s))"

definition has_edit_sequence :: "json option \<Rightarrow> bool" where
  "has_edit_sequence container =
     (truthy_opt container \<and> nonempty_array (get_edits (the container)))"

definition visionSubmit :: "remote \<Rightarrow> world \<Rightarrow> completion \<times> world" where
  "visionSubmit rs w0 =
     (let code = editor_value w0;
          model = model_input w0;
          timeout = timeout_input w0;
          prompt = visionPrompt_input w0;
          imageBase64 = screenshot_or_null (lastScreenshotBase64 w0);
          w1 = fetch (Run_req code) w0
      in case api_run rs code of
           Throws \<Rightarrow> (Rejected, w1)
         | Reply runData \<Rightarrow>
            (let w2 = (if \<not> rn_ok runData
                       then showNotify (''Run error: '' @ or_unknown (rn_error runData)) w1
                       else w1);
                 w3 = showNotify (''Comparing UI with screenshot'' @ ellipsis) w2;
                 w4 = fetch (Vision_req code prompt imageBase64 model timeout) w3
             in case api_vision_analyze rs code prompt imageBase64 model timeout of
                  Throws \<Rightarrow> (Rejected, w4)
                | Reply visData \<Rightarrow>
                   (if \<not> vi_ok visData
                    then (Returned,
                          alert (''Vision analyze error: '' @ or_unknown (vi_error visData))
                            (hideNotify w4))
                    else if has_edit_sequence (vi_edits visData) then
                     (let w5 = w4\<lparr>edits_panel := stringify (vi_edits visData)\<rparr>;
                          edits = the (get_edits (the (vi_edits visData)));
                          w6 = fetch (Apply_req code edits) w5
                      in case api_apply rs code edits of
                           Throws \<Rightarrow> (Rejected, w6)
                         | Reply applyData \<Rightarrow>
                            (if ap_ok applyData \<and> ap_code applyData \<noteq> []
                             then (Returned,
                                   hideNotify (showNotify ''Applied vision-based fixes.''
                                     (setValue (ap_code applyData) w6)))
                             else if \<not> ap_ok applyData
                             then (Returned,
                                   hideNotify
                                     (alert (''Apply error: '' @ or_unknown (ap_error applyData)) w6))
                             else (Returned, hideNotify w6)))
                    else (Returned,
                          hideNotify (showNotify ''No changes suggested from vision.'' w4)))))"

text \<open>
  \<open>fixUsingCross\<close> (lines 227 to 280). \<open>if (data.code)\<close> holds for a present,
  non-empty string. The \<open>return\<close> after the alert leaves through the \<open>finally\<close>.
  The report sent is the one read from the modal; it is \<open>None\<close> where the modal
  holds markup that the description of the parser does not cover.
\<close>

definition truthy_str :: "string option \<Rightarrow> bool" where
  "truthy_str v = (case v of None \<Rightarrow> False | Some s \<Rightarrow> s \<noteq> [])"

definition fixUsingCross :: "remote \<Rightarrow> world \<Rightarrow> completion \<times> world" where
  "fixUsingCross rs w0 =
     (let cross = extract_report (modal w0);
          code = editor_value w0;
          model = model_input w0;
          timeout = timeout_input w0;
          w1 = showNotify (''Fixing using cross-check'' @ ellipsis) w0;
          w2 = fetch (Fix_req code cross model timeout) w1
      in case api_fix_from_crosscheck rs code cross model timeout of
           Throws \<Rightarrow> (Returned, hideNotify w2)
         | Reply data \<Rightarrow>
            (if \<not> fx_ok data
             then (Returned, hideNotify (alert (''Fix error: '' @ or_unknown (fx_error data)) w2))
             else
              (let w3 = (if truthy_str (fx_code data) then setValue (the (fx_code data)) w2 else w2);
                   w4 = (if truthy_opt (fx_edits data)
                         then w3\<lparr>edits_panel := stringify (fx_edits data)\<rparr> else w3);
                   w5 = showNotify (''Cross-checking updated code'' @ ellipsis) w4;
                   w6 = fetch (Crosscheck_req (editor_value w5) model timeout) w5
               in case api_crosscheck rs (editor_value w5) model timeout of
                    Throws \<Rightarrow> (Returned, hideNotify w6)
                  | Reply data2 \<Rightarrow>
                     (if cc_ok data2
                      then (Returned, hideNotify (render (cc_report data2) w6))
                      else (Returned, hideNotify w6)))))"

section \<open>Reading a run's history\<close>

text \<open>The remote calls of a history, in order.\<close>

fun calls :: "event list \<Rightarrow> request list" where
  "calls [] = []"
| "calls (Fetch r # es) = r # calls es"
| "calls (e # es) = calls es"

text \<open>The reports rendered in a history, in order.\<close>

fun renders :: "event list \<Rightarrow> report list" where
  "renders [] = []"
| "renders (Rendered r # es) = r # renders es"
| "renders (e # es) = renders es"

text \<open>The status messages shown in a history, in order.\<close>

fun shown :: "event list \<Rightarrow> string list" where
  "shown [] = []"
| "shown (ShowNotify m # es) = m # shown es"
| "shown (e # es) = shown es"


text \<open>Whether a request is a cross-check call, and whether it is one on the text \<open>s\<close>.\<close>

fun is_crosscheck :: "request \<Rightarrow> bool" where
  "is_crosscheck (Crosscheck_req c m t) = True"
| "is_crosscheck r = False"

fun crosscheck_of :: "string \<Rightarrow> request \<Rightarrow> bool" where
  "crosscheck_of s (Crosscheck_req c m t) = (c = s)"
| "crosscheck_of s r = False"

text \<open>
  Every write to the editor in the history is followed, later in the history, by a
  cross-check call on the text written.
\<close>

fun mutations_checked :: "event list \<Rightarrow> bool" where
  "mutations_checked [] = True"
| "mutations_checked (SetValue s # es) =
     (list_ex (crosscheck_of s) (calls es) \<and> mutations_checked es)"
| "mutations_checked (e # es) = mutations_checked es"

text \<open>The cross-check call fails: the call throws, or the reply has \<open>ok\<close> false.\<close>

definition crosscheck_fails :: "remote \<Rightarrow> string \<Rightarrow> string \<Rightarrow> string \<Rightarrow> bool" where
  "crosscheck_fails rs c m t =
     (case api_crosscheck rs c m t of Throws \<Rightarrow> True | Reply d \<Rightarrow> \<not> cc_ok d)"

text \<open>The events that a run added to the history it started with.\<close>

definition history :: "world \<Rightarrow> world \<Rightarrow> event list" where
  "history w w' = drop (length (trace w)) (trace w')"

section \<open>The specification's notions\<close>





section \<open>The scenario of the specification\<close>

text \<open>
  Analyze on the code \<^verbatim>\<open>1/0\<close> proposes one fix, ApplyEdits returns the corrected
  code, and CrossCheck reports one passing test.
\<close>

definition the_fix :: "json list" where
  "the_fix = [JObj [(''line'', JNum 1), (''text'', JStr ''1/1'')]]"

definition one_fix :: json where
  "one_fix = JObj [(''edits'', JArr the_fix)]"

definition passing :: report where
  "passing =
     \<lparr>overall = ''pass'', counts_pass = 1, counts_fail = 0, summary = ''all good'',
      tests = [\<lparr>name = ''t1'', description = ''a < b'', status = ''pass'', reason = []\<rparr>]\<rparr>"

definition closed_modal :: display where
  "closed_modal =
     \<lparr>overallBadge_text = [], overallBadge_class = [''badge''], countPass_text = [],
      countFail_text = [], crossSummary_text = [], testList = [], modalOverlay_hidden = True\<rparr>"

definition page :: world where
  "page =
     \<lparr>editor_value = ''1/0'', filename_input = ''main.py'', model_input = ''gemini-2.5-pro'',
      timeout_input = ''60'', visionPrompt_input = [], lastScreenshotBase64 = None,
      edits_panel = Blank, notify_text = [], notify_hidden = True, modal = closed_modal,
      trace = []\<rparr>"

definition services :: remote where
  "services =
     \<lparr>api_analyze = (\<lambda>c f m t. Reply \<lparr>an_ok = True, an_error = None, an_result = Some one_fix\<rparr>),
      api_apply = (\<lambda>c e. Reply \<lparr>ap_ok = True, ap_error = None, ap_code = ''1/1''\<rparr>),
      api_crosscheck = (\<lambda>c m t. Reply \<lparr>cc_ok = True, cc_report = passing\<rparr>),
      api_fix_from_crosscheck =
        (\<lambda>c r m t. Reply \<lparr>fx_ok = True, fx_error = None, fx_code = Some ''1/1'', fx_edits = None\<rparr>),
      api_vision_analyze =
        (\<lambda>c p i m t. Reply \<lparr>vi_ok = True, vi_error = None, vi_edits = Some one_fix\<rparr>),
      api_run = (\<lambda>c. Reply \<lparr>rn_ok = True, rn_error = None\<rparr>)\<rparr>"

text \<open>
  Variations of the scenario: services that answer otherwise, other texts in the
  Edits panel, and other tests in the report.
\<close>

definition nothing_to_fix :: remote where
  "nothing_to_fix =
     services\<lparr>api_analyze :=
       \<lambda>c f m t. Reply \<lparr>an_ok = True, an_error = None, an_result = Some (JObj [])\<rparr>\<rparr>"

definition analysis_unreachable :: remote where
  "analysis_unreachable = services\<lparr>api_analyze := \<lambda>c f m t. Throws\<rparr>"

definition crosscheck_unreachable :: remote where
  "crosscheck_unreachable = services\<lparr>api_crosscheck := \<lambda>c m t. Throws\<rparr>"

definition run_unreachable :: remote where
  "run_unreachable = services\<lparr>api_run := \<lambda>c. Throws\<rparr>"

definition run_fails_nothing_suggested :: remote where
  "run_fails_nothing_suggested =
     services\<lparr>api_run := \<lambda>c. Reply \<lparr>rn_ok = False, rn_error = Some ''boom''\<rparr>,
              api_vision_analyze :=
                \<lambda>c p i m t. Reply \<lparr>vi_ok = True, vi_error = None, vi_edits = None\<rparr>\<rparr>"

definition page_with_fix :: world where
  "page_with_fix = page\<lparr>edits_panel := Wellformed one_fix\<rparr>"

definition page_with_empty_mapping :: world where
  "page_with_empty_mapping = page\<lparr>edits_panel := Wellformed (JObj [])\<rparr>"

definition page_with_a_string :: world where
  "page_with_a_string = page\<lparr>edits_panel := Wellformed (JStr ''x'')\<rparr>"

definition page_with_broken_text :: world where
  "page_with_broken_text = page\<lparr>edits_panel := Malformed\<rparr>"

definition hostile_test :: test_outcome where
  "hostile_test =
     \<lparr>name = ''</span><span class='' @ [CHR 0x22] @ ''test'' @ [CHR 0x22] @ ''>'',
      description = ''a & b'' @ [CHR 0x0D, CHR 0x0A] @ ''<c>'', status = ''fail'',
      reason = ''<i>''\<rparr>"

definition two_line_test :: test_outcome where
  "two_line_test =
     \<lparr>name = ''t1'', description = ''a'' @ [CHR 0x0D, CHR 0x0A] @ ''b'', status = ''pass'',
      reason = ''x'' @ [CHR 0x00] @ ''y'' @ [CHR 0x0D] @ ''z''\<rparr>"

definition nameless_test :: test_outcome where
  "nameless_test = \<lparr>name = [], description = ''a < b'', status = ''pass'', reason = []\<rparr>"

definition injecting_test :: test_outcome where
  "injecting_test =
     \<lparr>name = ''t1'', description = [],
      status = ''x'' @ [CHR 0x22] @ ''></span><span class='' @ [CHR 0x22] @ ''test'',
      reason = []\<rparr>"

section \<open>How the primitive effects show in the state\<close>

lemma trace_effects:
  "trace (log e w) = trace w @ [e]"
  "trace (showNotify m w) = trace w @ [ShowNotify m]"
  "trace (hideNotify w) = trace w @ [HideNotify]"
  "trace (alert m w) = trace w @ [Alert m]"
  "trace (setValue s w) = trace w @ [SetValue s]"
  "trace (fetch r w) = trace w @ [Fetch r]"
  "trace (render p w) = trace w @ [Rendered p]"
  by (simp_all add: log_def showNotify_def hideNotify_def alert_def setValue_def fetch_def
      render_def)

lemma editor_effects:
  "editor_value (showNotify m w) = editor_value w"
  "editor_value (hideNotify w) = editor_value w"
  "editor_value (alert m w) = editor_value w"
  "editor_value (setValue s w) = s"
  "editor_value (fetch r w) = editor_value w"
  "editor_value (render p w) = editor_value w"
  by (simp_all add: log_def showNotify_def hideNotify_def alert_def setValue_def fetch_def
      render_def)

lemma input_effects:
  "model_input (setValue s w) = model_input w"
  "timeout_input (setValue s w) = timeout_input w"
  "model_input (fetch r w) = model_input w"
  "timeout_input (fetch r w) = timeout_input w"
  by (simp_all add: log_def setValue_def fetch_def)

lemma notify_effects:
  "notify_hidden (showNotify m w) = False"
  "notify_hidden (hideNotify w) = True"
  "notify_hidden (fetch r w) = notify_hidden w"
  "notify_text (showNotify m w) = m"
  "notify_text (hideNotify w) = notify_text w"
  "notify_text (fetch r w) = notify_text w"
  by (simp_all add: log_def showNotify_def hideNotify_def fetch_def)

lemma modal_effects:
  "modal (showNotify m w) = modal w"
  "modal (hideNotify w) = modal w"
  "modal (alert m w) = modal w"
  "modal (setValue s w) = modal w"
  "modal (fetch r w) = modal w"
  by (simp_all add: log_def showNotify_def hideNotify_def alert_def setValue_def fetch_def)

lemma history_eq: "history w w' = drop (length (trace w)) (trace w')"
  by (simp add: history_def)

section \<open>The scenario\<close>

lemma page_inputs:
  "editor_value page = ''1/0''" "filename_input page = ''main.py''"
  "model_input page = ''gemini-2.5-pro''" "timeout_input page = ''60''"
  "visionPrompt_input page = []" "lastScreenshotBase64 page = None"
  "edits_panel page = Blank" "trace page = []" "modal page = closed_modal"
  "notify_hidden page"
  by (simp_all add: page_def)

lemma page_variants:
  "editor_value page_with_fix = ''1/0''" "model_input page_with_fix = ''gemini-2.5-pro''"
  "timeout_input page_with_fix = ''60''" "trace page_with_fix = []"
  "modal page_with_fix = closed_modal" "edits_panel page_with_fix = Wellformed one_fix"
  "editor_value page_with_empty_mapping = ''1/0''"
  "model_input page_with_empty_mapping = ''gemini-2.5-pro''"
  "timeout_input page_with_empty_mapping = ''60''" "trace page_with_empty_mapping = []"
  "edits_panel page_with_empty_mapping = Wellformed (JObj [])"
  "editor_value page_with_a_string = ''1/0''" "trace page_with_a_string = []"
  "edits_panel page_with_a_string = Wellformed (JStr ''x'')"
  "editor_value page_with_broken_text = ''1/0''" "trace page_with_broken_text = []"
  "edits_panel page_with_broken_text = Malformed"
  by (simp_all add: page_with_fix_def page_with_empty_mapping_def page_with_a_string_def
      page_with_broken_text_def page_def)

lemma one_fix_edits:
  "result_edits (Some one_fix) = Some (JArr the_fix)"
  "edits_or_empty one_fix = JArr the_fix"
  "has_edit_sequence (Some one_fix)"
  "get_edits one_fix = Some (JArr the_fix)"
  "one_fix \<noteq> JNull"
  "the_fix \<noteq> []"
  by (simp_all add: result_edits_def edits_or_empty_def has_edit_sequence_def one_fix_def
      the_fix_def truthy_opt_def)

lemma services_replies:
  "api_analyze services c f m t = Reply \<lparr>an_ok = True, an_error = None, an_result = Some one_fix\<rparr>"
  "api_apply services c e = Reply \<lparr>ap_ok = True, ap_error = None, ap_code = ''1/1''\<rparr>"
  "api_crosscheck services c m t = Reply \<lparr>cc_ok = True, cc_report = passing\<rparr>"
  "api_vision_analyze services c p i m t =
     Reply \<lparr>vi_ok = True, vi_error = None, vi_edits = Some one_fix\<rparr>"
  "api_run services c = Reply \<lparr>rn_ok = True, rn_error = None\<rparr>"
  by (simp_all add: services_def)

lemma variant_replies:
  "api_analyze nothing_to_fix c f m t =
     Reply \<lparr>an_ok = True, an_error = None, an_result = Some (JObj [])\<rparr>"
  "api_crosscheck nothing_to_fix c m t = Reply \<lparr>cc_ok = True, cc_report = passing\<rparr>"
  "api_analyze analysis_unreachable c f m t = Throws"
  "api_analyze crosscheck_unreachable c f m t =
     Reply \<lparr>an_ok = True, an_error = None, an_result = Some one_fix\<rparr>"
  "api_apply crosscheck_unreachable c e = Reply \<lparr>ap_ok = True, ap_error = None, ap_code = ''1/1''\<rparr>"
  "api_crosscheck crosscheck_unreachable c m t = Throws"
  "api_run run_unreachable c = Throws"
  "api_run run_fails_nothing_suggested c = Reply \<lparr>rn_ok = False, rn_error = Some ''boom''\<rparr>"
  "api_vision_analyze run_fails_nothing_suggested c p i m t =
     Reply \<lparr>vi_ok = True, vi_error = None, vi_edits = None\<rparr>"
  by (simp_all add: nothing_to_fix_def analysis_unreachable_def crosscheck_unreachable_def
      run_unreachable_def run_fails_nothing_suggested_def services_def)

section \<open>Apply, then cross-check\<close>

lemma analyze_apply_calls:
  assumes "api_analyze rs (editor_value w) (filename_input w) (model_input w) (timeout_input w)
             = Reply da"
      and "an_ok da" and "result_edits (an_result da) = Some (JArr E)" and "E \<noteq> []"
      and "api_apply rs (editor_value w) (JArr E) = Reply d" and "ap_ok d"
  shows "calls (history w (snd (analyze rs w))) =
            [Analyze_req (editor_value w) (filename_input w) (model_input w) (timeout_input w),
             Apply_req (editor_value w) (JArr E),
             Crosscheck_req (ap_code d) (model_input w) (timeout_input w)]"
  using assms
  by (simp add: analyze_def Let_def history_eq trace_effects split: outcome.splits)

lemma applyFixes_calls:
  assumes "JSON_parse_or_empty (edits_panel w) = Some parsed" and "parsed \<noteq> JNull"
      and "api_apply rs (editor_value w) (edits_or_empty parsed) = Reply d" and "ap_ok d"
  shows "calls (history w (snd (applyFixes rs w))) =
            [Apply_req (editor_value w) (edits_or_empty parsed),
             Crosscheck_req (ap_code d) (model_input w) (timeout_input w)]"
  using assms
  by (simp add: applyFixes_def Let_def history_eq trace_effects input_effects split: outcome.splits)

text \<open>
  C4. Whenever ApplyEdits succeeds, in the chain started by Analyze and in the manual
  apply, the remote calls of the run are the ones listed: the cross-check call comes
  right after the apply call and carries the text that ApplyEdits returned, not the
  snapshot the run started from.
\<close>

theorem apply_then_crosscheck:
  "(api_analyze rs (editor_value w) (filename_input w) (model_input w) (timeout_input w)
        = Reply da \<and> an_ok da \<and> result_edits (an_result da) = Some (JArr E) \<and> E \<noteq> [] \<and>
      api_apply rs (editor_value w) (JArr E) = Reply d \<and> ap_ok d
    \<longrightarrow> calls (history w (snd (analyze rs w))) =
            [Analyze_req (editor_value w) (filename_input w) (model_input w) (timeout_input w),
             Apply_req (editor_value w) (JArr E),
             Crosscheck_req (ap_code d) (model_input w) (timeout_input w)])
   \<and>
   (JSON_parse_or_empty (edits_panel w) = Some parsed \<and> parsed \<noteq> JNull \<and>
      api_apply rs (editor_value w) (edits_or_empty parsed) = Reply d' \<and> ap_ok d'
    \<longrightarrow> calls (history w (snd (applyFixes rs w))) =
            [Apply_req (editor_value w) (edits_or_empty parsed),
             Crosscheck_req (ap_code d') (model_input w) (timeout_input w)])"
  using analyze_apply_calls [of rs w da E d] applyFixes_calls [of w parsed rs d'] by blast

theorem apply_then_crosscheck_witness:
  "api_analyze services (editor_value page) (filename_input page) (model_input page)
      (timeout_input page) = Reply \<lparr>an_ok = True, an_error = None, an_result = Some one_fix\<rparr> \<and>
   result_edits (Some one_fix) = Some (JArr the_fix) \<and>
   the_fix \<noteq> [] \<and>
   api_apply services (editor_value page) (JArr the_fix)
     = Reply \<lparr>ap_ok = True, ap_error = None, ap_code = ''1/1''\<rparr> \<and>
   calls (history page (snd (analyze services page))) =
     [Analyze_req ''1/0'' ''main.py'' ''gemini-2.5-pro'' ''60'',
      Apply_req ''1/0'' (JArr the_fix),
      Crosscheck_req ''1/1'' ''gemini-2.5-pro'' ''60''] \<and>
   JSON_parse_or_empty (edits_panel page_with_fix) = Some one_fix \<and>
   one_fix \<noteq> JNull \<and>
   calls (history page_with_fix (snd (applyFixes services page_with_fix))) =
     [Apply_req ''1/0'' (JArr the_fix), Crosscheck_req ''1/1'' ''gemini-2.5-pro'' ''60'']"
proof -
  let ?da = "\<lparr>an_ok = True, an_error = None, an_result = Some one_fix\<rparr>"
  let ?d = "\<lparr>ap_ok = True, ap_error = None, ap_code = ''1/1''\<rparr>"
  have j: "JSON_parse_or_empty (edits_panel page_with_fix) = Some one_fix"
    by (simp add: JSON_parse_or_empty_def page_variants)
  from apply_then_crosscheck [of services page ?da the_fix ?d one_fix ?d]
  have 1: "calls (history page (snd (analyze services page))) =
     [Analyze_req ''1/0'' ''main.py'' ''gemini-2.5-pro'' ''60'',
      Apply_req ''1/0'' (JArr the_fix), Crosscheck_req ''1/1'' ''gemini-2.5-pro'' ''60'']"
    by (simp add: page_inputs services_replies one_fix_edits)
  from apply_then_crosscheck [of services page_with_fix ?da the_fix ?d one_fix ?d] j
  have 2: "calls (history page_with_fix (snd (applyFixes services page_with_fix))) =
     [Apply_req ''1/0'' (JArr the_fix), Crosscheck_req ''1/1'' ''gemini-2.5-pro'' ''60'']"
    by (simp add: page_variants services_replies one_fix_edits)
  from j 1 2 show ?thesis
    by (simp add: services_replies one_fix_edits)
qed

section \<open>Analyze without edits\<close>

text \<open>
  C5. When Analyze succeeds and proposes no edit (the result or its \<open>edits\<close> field is
  absent, or \<open>edits\<close> is not a non-empty sequence), the run makes exactly two remote
  calls, Analyze and CrossCheck: ApplyEdits is not called, the cross-check receives
  the snapshot taken at the start, and the editor keeps it.
\<close>

theorem analyze_without_edits:
  assumes "api_analyze rs (editor_value w) (filename_input w) (model_input w) (timeout_input w)
             = Reply data"
      and "an_ok data"
      and "\<not> nonempty_array (result_edits (an_result data))"
  shows "fst (analyze rs w) = Returned \<and>
         calls (history w (snd (analyze rs w))) =
           [Analyze_req (editor_value w) (filename_input w) (model_input w) (timeout_input w),
            Crosscheck_req (editor_value w) (model_input w) (timeout_input w)] \<and>
         editor_value (snd (analyze rs w)) = editor_value w"
  using assms
  by (simp add: analyze_def Let_def history_eq trace_effects editor_effects split: outcome.splits)

theorem analyze_without_edits_witness:
  "api_analyze nothing_to_fix (editor_value page) (filename_input page) (model_input page)
      (timeout_input page) = Reply \<lparr>an_ok = True, an_error = None, an_result = Some (JObj [])\<rparr> \<and>
   \<not> nonempty_array (result_edits (Some (JObj []))) \<and>
   \<not> nonempty_array (result_edits None) \<and>
   fst (analyze nothing_to_fix page) = Returned \<and>
   calls (history page (snd (analyze nothing_to_fix page))) =
     [Analyze_req ''1/0'' ''main.py'' ''gemini-2.5-pro'' ''60'',
      Crosscheck_req ''1/0'' ''gemini-2.5-pro'' ''60''] \<and>
   editor_value (snd (analyze nothing_to_fix page)) = ''1/0''"
  using analyze_without_edits
    [of nothing_to_fix page "\<lparr>an_ok = True, an_error = None, an_result = Some (JObj [])\<rparr>"]
  by (simp add: page_inputs variant_replies result_edits_def truthy_opt_def)

section \<open>A failing cross-check after a successful apply\<close>

lemma applyFixes_crosscheck_fails:
  assumes "JSON_parse_or_empty (edits_panel w) = Some parsed" and "parsed \<noteq> JNull"
      and "api_apply rs (editor_value w) (edits_or_empty parsed) = Reply d" and "ap_ok d"
      and "crosscheck_fails rs (ap_code d) (model_input w) (timeout_input w)"
  shows "fst (applyFixes rs w) = Returned \<and>
        editor_value (snd (applyFixes rs w)) = ap_code d \<and>
        modal (snd (applyFixes rs w)) = modal w \<and>
        renders (history w (snd (applyFixes rs w))) = [] \<and>
        notify_hidden (snd (applyFixes rs w))"
  using assms
  by (auto simp: applyFixes_def Let_def history_eq trace_effects input_effects editor_effects
      modal_effects notify_effects crosscheck_fails_def split: outcome.splits)

lemma analyze_crosscheck_fails:
  assumes "api_analyze rs (editor_value w) (filename_input w) (model_input w) (timeout_input w)
             = Reply da"
      and "an_ok da" and "result_edits (an_result da) = Some (JArr E)" and "E \<noteq> []"
      and "api_apply rs (editor_value w) (JArr E) = Reply d" and "ap_ok d"
      and "crosscheck_fails rs (ap_code d) (model_input w) (timeout_input w)"
  shows "fst (analyze rs w) = Returned \<and>
        editor_value (snd (analyze rs w)) = ap_code d \<and>
        modal (snd (analyze rs w)) = modal w \<and>
        renders (history w (snd (analyze rs w))) = [] \<and>
        notify_hidden (snd (analyze rs w))"
  using assms
  by (auto simp: analyze_def Let_def history_eq trace_effects input_effects editor_effects
      modal_effects notify_effects crosscheck_fails_def split: outcome.splits)

text \<open>
  C7. When the cross-check that follows a successful ApplyEdits fails, by throwing or
  by a reply with \<open>ok\<close> false, the run still returns normally, the editor holds the
  text that ApplyEdits returned, the modal is untouched and nothing is rendered, and
  the status signal is hidden at the end. This holds for the manual apply and for
  the apply chained after Analyze.
\<close>

theorem crosscheck_failure_is_not_fatal:
  "(JSON_parse_or_empty (edits_panel w) = Some parsed \<and> parsed \<noteq> JNull \<and>
      api_apply rs (editor_value w) (edits_or_empty parsed) = Reply d \<and> ap_ok d \<and>
      crosscheck_fails rs (ap_code d) (model_input w) (timeout_input w)
    \<longrightarrow> fst (applyFixes rs w) = Returned \<and>
        editor_value (snd (applyFixes rs w)) = ap_code d \<and>
        modal (snd (applyFixes rs w)) = modal w \<and>
        renders (history w (snd (applyFixes rs w))) = [] \<and>
        notify_hidden (snd (applyFixes rs w)))
   \<and>
   (api_analyze rs (editor_value w) (filename_input w) (model_input w) (timeout_input w)
        = Reply da \<and> an_ok da \<and> result_edits (an_result da) = Some (JArr E) \<and> E \<noteq> [] \<and>
      api_apply rs (editor_value w) (JArr E) = Reply d' \<and> ap_ok d' \<and>
      crosscheck_fails rs (ap_code d') (model_input w) (timeout_input w)
    \<longrightarrow> fst (analyze rs w) = Returned \<and>
        editor_value (snd (analyze rs w)) = ap_code d' \<and>
        modal (snd (analyze rs w)) = modal w \<and>
        renders (history w (snd (analyze rs w))) = [] \<and>
        notify_hidden (snd (analyze rs w)))"
  using applyFixes_crosscheck_fails [of w parsed rs d] analyze_crosscheck_fails [of rs w da E d']
  by blast

theorem crosscheck_failure_is_not_fatal_witness:
  "JSON_parse_or_empty (edits_panel page_with_fix) = Some one_fix \<and>
   one_fix \<noteq> JNull \<and>
   api_apply crosscheck_unreachable (editor_value page_with_fix) (edits_or_empty one_fix)
     = Reply \<lparr>ap_ok = True, ap_error = None, ap_code = ''1/1''\<rparr> \<and>
   crosscheck_fails crosscheck_unreachable ''1/1'' ''gemini-2.5-pro'' ''60'' \<and>
   editor_value page_with_fix = ''1/0'' \<and>
   fst (applyFixes crosscheck_unreachable page_with_fix) = Returned \<and>
   editor_value (snd (applyFixes crosscheck_unreachable page_with_fix)) = ''1/1'' \<and>
   modal (snd (applyFixes crosscheck_unreachable page_with_fix)) = closed_modal \<and>
   renders (history page_with_fix (snd (applyFixes crosscheck_unreachable page_with_fix))) = [] \<and>
   notify_hidden (snd (applyFixes crosscheck_unreachable page_with_fix)) \<and>
   fst (analyze crosscheck_unreachable page) = Returned \<and>
   editor_value (snd (analyze crosscheck_unreachable page)) = ''1/1'' \<and>
   modal (snd (analyze crosscheck_unreachable page)) = closed_modal \<and>
   notify_hidden (snd (analyze crosscheck_unreachable page))"
proof -
  let ?da = "\<lparr>an_ok = True, an_error = None, an_result = Some one_fix\<rparr>"
  let ?d = "\<lparr>ap_ok = True, ap_error = None, ap_code = ''1/1''\<rparr>"
  have j: "JSON_parse_or_empty (edits_panel page_with_fix) = Some one_fix"
    by (simp add: JSON_parse_or_empty_def page_variants)
  have f: "crosscheck_fails crosscheck_unreachable ''1/1'' ''gemini-2.5-pro'' ''60''"
    by (simp add: crosscheck_fails_def variant_replies)
  from crosscheck_failure_is_not_fatal
    [of page_with_fix one_fix crosscheck_unreachable ?d ?da the_fix ?d] j f
  have 1: "fst (applyFixes crosscheck_unreachable page_with_fix) = Returned \<and>
           editor_value (snd (applyFixes crosscheck_unreachable page_with_fix)) = ''1/1'' \<and>
           modal (snd (applyFixes crosscheck_unreachable page_with_fix)) = closed_modal \<and>
           renders (history page_with_fix
             (snd (applyFixes crosscheck_unreachable page_with_fix))) = [] \<and>
           notify_hidden (snd (applyFixes crosscheck_unreachable page_with_fix))"
    by (simp add: page_variants variant_replies one_fix_edits)
  from crosscheck_failure_is_not_fatal
    [of page one_fix crosscheck_unreachable ?d ?da the_fix ?d] f
  have 2: "fst (analyze crosscheck_unreachable page) = Returned \<and>
           editor_value (snd (analyze crosscheck_unreachable page)) = ''1/1'' \<and>
           modal (snd (analyze crosscheck_unreachable page)) = closed_modal \<and>
           notify_hidden (snd (analyze crosscheck_unreachable page))"
    by (simp add: page_inputs variant_replies one_fix_edits)
  from j f 1 2 show ?thesis
    by (simp add: page_variants variant_replies one_fix_edits)
qed

section \<open>Every mutation is cross-checked, except in the vision submit\<close>

lemma analyze_checked: "mutations_checked (history w (snd (analyze rs w)))"
  by (simp add: analyze_def Let_def history_eq trace_effects split: outcome.splits)

lemma applyFixes_checked: "mutations_checked (history w (snd (applyFixes rs w)))"
  by (simp add: applyFixes_def Let_def history_eq trace_effects split: outcome.splits option.splits)

lemma fixUsingCross_checked: "mutations_checked (history w (snd (fixUsingCross rs w)))"
  by (simp add: fixUsingCross_def Let_def history_eq trace_effects editor_effects
      split: outcome.splits)

lemma visionSubmit_never_checks:
  "\<not> list_ex is_crosscheck (calls (history w (snd (visionSubmit rs w))))"
  by (simp add: visionSubmit_def Let_def history_eq trace_effects split: outcome.splits)

lemma analyze_scenario_history:
  "history page (snd (analyze services page)) =
     [ShowNotify (''Analyzing'' @ ellipsis @ '' Debugger is analyzing the code''),
      Fetch (Analyze_req ''1/0'' ''main.py'' ''gemini-2.5-pro'' ''60''),
      HideNotify,
      ShowNotify (''Applying fixes'' @ ellipsis),
      Fetch (Apply_req ''1/0'' (JArr the_fix)),
      SetValue ''1/1'',
      ShowNotify msg_crosscheck,
      Fetch (Crosscheck_req ''1/1'' ''gemini-2.5-pro'' ''60''),
      Rendered passing,
      HideNotify]"
  by (simp add: analyze_def Let_def history_eq trace_effects page_inputs one_fix_edits
      services_replies)

lemma visionSubmit_scenario_history:
  "history page (snd (visionSubmit services page)) =
     [Fetch (Run_req ''1/0''),
      ShowNotify (''Comparing UI with screenshot'' @ ellipsis),
      Fetch (Vision_req ''1/0'' [] None ''gemini-2.5-pro'' ''60''),
      Fetch (Apply_req ''1/0'' (JArr the_fix)),
      SetValue ''1/1'',
      ShowNotify ''Applied vision-based fixes.'',
      HideNotify]"
  by (simp add: visionSubmit_def Let_def history_eq trace_effects page_inputs one_fix_edits
      screenshot_or_null_def services_replies)

text \<open>
  C1, as the script has it. In the runs started by Analyze, by the manual apply and
  by the fix from a cross-check, every write to the editor is followed in the same
  run by a cross-check call on the text written. The vision submit is different: it
  never calls the cross-check service, whatever the services answer.
\<close>

theorem mutation_is_cross_checked:
  "mutations_checked (history w (snd (analyze rs w))) \<and>
   mutations_checked (history w (snd (applyFixes rs w))) \<and>
   mutations_checked (history w (snd (fixUsingCross rs w))) \<and>
   \<not> list_ex is_crosscheck (calls (history w (snd (visionSubmit rs w))))"
  by (simp only: analyze_checked applyFixes_checked fixUsingCross_checked
      visionSubmit_never_checks simp_thms)

theorem mutation_is_cross_checked_witness:
  "mutations_checked (history page (snd (analyze services page))) \<and>
   SetValue ''1/1'' \<in> set (history page (snd (analyze services page))) \<and>
   list_ex (crosscheck_of ''1/1'') (calls (history page (snd (analyze services page))))"
proof -
  from mutation_is_cross_checked [of page services]
  have "mutations_checked (history page (snd (analyze services page)))" by simp
  then show ?thesis by (simp add: analyze_scenario_history)
qed

text \<open>
  C1 as stated fails for the vision submit: in the scenario, its apply succeeds and
  replaces the text \<^verbatim>\<open>1/0\<close> of the editor by \<^verbatim>\<open>1/1\<close>, and the run returns without a
  cross-check call on the new text.
\<close>

theorem vision_apply_is_not_cross_checked:
  "fst (visionSubmit services page) = Returned \<and>
   editor_value page = ''1/0'' \<and>
   editor_value (snd (visionSubmit services page)) = ''1/1'' \<and>
   SetValue ''1/1'' \<in> set (history page (snd (visionSubmit services page))) \<and>
   calls (history page (snd (visionSubmit services page))) =
     [Run_req ''1/0'', Vision_req ''1/0'' [] None ''gemini-2.5-pro'' ''60'',
      Apply_req ''1/0'' (JArr the_fix)] \<and>
   \<not> mutations_checked (history page (snd (visionSubmit services page)))"
proof -
  have r: "fst (visionSubmit services page) = Returned"
    by (simp add: visionSubmit_def Let_def page_inputs one_fix_edits screenshot_or_null_def
        services_replies)
  have e: "editor_value (snd (visionSubmit services page)) = ''1/1''"
    by (simp add: visionSubmit_def Let_def editor_effects page_inputs one_fix_edits
        screenshot_or_null_def services_replies)
  show ?thesis
    by (simp add: r e visionSubmit_scenario_history page_inputs)
qed

section \<open>The status signal on a network error\<close>

text \<open>
  The fix from a cross-check hides the status signal at the end of every path, and
  so does every run that returns, when the signal was hidden at its start.
\<close>

lemma fixUsingCross_hides_status: "notify_hidden (snd (fixUsingCross rs w))"
  by (simp add: fixUsingCross_def Let_def notify_effects hideNotify_def log_def
      split: outcome.splits)

lemma returned_runs_hide_status:
  assumes "notify_hidden w"
  shows "fst (analyze rs w) = Returned \<Longrightarrow> notify_hidden (snd (analyze rs w))"
    and "fst (applyFixes rs w) = Returned \<Longrightarrow> notify_hidden (snd (applyFixes rs w))"
    and "fst (visionSubmit rs w) = Returned \<Longrightarrow> notify_hidden (snd (visionSubmit rs w))"
  using assms
  by (auto simp: analyze_def applyFixes_def visionSubmit_def Let_def hideNotify_def alert_def
      fetch_def log_def split: outcome.splits option.splits if_splits)

text \<open>
  C2 fails on the script. In the scenario with the analysis service unreachable, the
  first remote call of \<open>analyze\<close> throws after the status message was shown: the run
  is rejected with the message still visible.
\<close>

theorem analyze_network_error_leaves_status:
  "notify_hidden page \<and>
   fst (analyze analysis_unreachable page) = Rejected \<and>
   \<not> notify_hidden (snd (analyze analysis_unreachable page)) \<and>
   notify_text (snd (analyze analysis_unreachable page)) =
     ''Analyzing'' @ ellipsis @ '' Debugger is analyzing the code''"
  by (simp add: analyze_def Let_def notify_effects page_inputs variant_replies)

section \<open>The text of the Edits panel\<close>




section \<open>The vision submit\<close>

text \<open>
  C9, as the script has it. When the Run call returns a reply, with \<open>ok\<close> true or
  false, the vision call follows it, with a null image when no screenshot was
  captured; a reply with \<open>ok\<close> false is shown as a status message. When the vision
  reply is a success without a non-empty edit sequence, the run returns after these
  two calls, so without an apply or a cross-check call; its last status message is
  \<^verbatim>\<open>No changes suggested from vision.\<close>, hidden as the run ends, and the editor is
  unchanged.
\<close>

theorem vision_submit_chain:
  assumes "api_run rs (editor_value w) = Reply runData"
  shows "(\<exists>rest. calls (history w (snd (visionSubmit rs w))) =
            Run_req (editor_value w) #
            Vision_req (editor_value w) (visionPrompt_input w)
              (screenshot_or_null (lastScreenshotBase64 w)) (model_input w) (timeout_input w) # rest) \<and>
         (lastScreenshotBase64 w = None \<longrightarrow> screenshot_or_null (lastScreenshotBase64 w) = None) \<and>
         (\<not> rn_ok runData \<longrightarrow>
            (\<exists>rest. shown (history w (snd (visionSubmit rs w))) =
               (''Run error: '' @ or_unknown (rn_error runData)) # rest)) \<and>
         (\<forall>v. api_vision_analyze rs (editor_value w) (visionPrompt_input w)
                (screenshot_or_null (lastScreenshotBase64 w)) (model_input w) (timeout_input w)
                = Reply v \<and> vi_ok v \<and> \<not> has_edit_sequence (vi_edits v) \<longrightarrow>
              fst (visionSubmit rs w) = Returned \<and>
              calls (history w (snd (visionSubmit rs w))) =
                [Run_req (editor_value w),
                 Vision_req (editor_value w) (visionPrompt_input w)
                   (screenshot_or_null (lastScreenshotBase64 w)) (model_input w) (timeout_input w)] \<and>
              last (shown (history w (snd (visionSubmit rs w)))) = ''No changes suggested from vision.'' \<and>
              notify_text (snd (visionSubmit rs w)) = ''No changes suggested from vision.'' \<and>
              notify_hidden (snd (visionSubmit rs w)) \<and>
              editor_value (snd (visionSubmit rs w)) = editor_value w)"
  using assms
  by (auto simp: visionSubmit_def Let_def history_eq trace_effects editor_effects notify_effects
      screenshot_or_null_def split: outcome.splits)

theorem vision_submit_chain_witness:
  "api_run run_fails_nothing_suggested (editor_value page) =
     Reply \<lparr>rn_ok = False, rn_error = Some ''boom''\<rparr> \<and>
   lastScreenshotBase64 page = None \<and>
   api_vision_analyze run_fails_nothing_suggested (editor_value page) (visionPrompt_input page)
      (screenshot_or_null (lastScreenshotBase64 page)) (model_input page) (timeout_input page) =
     Reply \<lparr>vi_ok = True, vi_error = None, vi_edits = None\<rparr> \<and>
   \<not> has_edit_sequence None \<and>
   fst (visionSubmit run_fails_nothing_suggested page) = Returned \<and>
   calls (history page (snd (visionSubmit run_fails_nothing_suggested page))) =
     [Run_req ''1/0'', Vision_req ''1/0'' [] None ''gemini-2.5-pro'' ''60''] \<and>
   (\<exists>rest. shown (history page (snd (visionSubmit run_fails_nothing_suggested page))) =
       ''Run error: boom'' # rest) \<and>
   last (shown (history page (snd (visionSubmit run_fails_nothing_suggested page)))) =
     ''No changes suggested from vision.''"
proof -
  let ?run = "\<lparr>rn_ok = False, rn_error = Some ''boom''\<rparr>"
  let ?vis = "\<lparr>vi_ok = True, vi_error = None, vi_edits = None\<rparr>"
  let ?rs = run_fails_nothing_suggested
  have r: "api_run ?rs (editor_value page) = Reply ?run"
    by (simp add: variant_replies)
  have v: "api_vision_analyze ?rs (editor_value page) (visionPrompt_input page)
             (screenshot_or_null (lastScreenshotBase64 page)) (model_input page)
             (timeout_input page) = Reply ?vis"
    by (simp add: variant_replies)
  have n: "\<not> has_edit_sequence None"
    by (simp add: has_edit_sequence_def truthy_opt_def)
  have s: "screenshot_or_null None = None"
    by (simp add: screenshot_or_null_def)
  have u: "or_unknown (Some ''boom'') = ''boom''"
    by (simp add: or_unknown_def)
  note c = vision_submit_chain [OF r]
  from c v n have 1: "fst (visionSubmit ?rs page) = Returned \<and>
      calls (history page (snd (visionSubmit ?rs page))) =
        [Run_req ''1/0'', Vision_req ''1/0'' [] None ''gemini-2.5-pro'' ''60''] \<and>
      last (shown (history page (snd (visionSubmit ?rs page)))) =
        ''No changes suggested from vision.''"
    by (simp add: page_inputs s)
  from c have 2: "\<exists>rest. shown (history page (snd (visionSubmit ?rs page))) =
       ''Run error: boom'' # rest"
    by (simp add: u)
  from r v n 1 2 show ?thesis by (simp add: page_inputs)
qed

text \<open>
  C9 as stated fails for a Run call that fails on the network: the run is rejected
  right there, and the vision call is never made.
\<close>

theorem run_network_failure_is_fatal:
  "fst (visionSubmit run_unreachable page) = Rejected \<and>
   calls (history page (snd (visionSubmit run_unreachable page))) = [Run_req ''1/0'']"
  by (simp add: visionSubmit_def Let_def history_eq trace_effects page_inputs variant_replies)

section \<open>Rendering twice\<close>

lemma append_tests_eq: "append_tests ts list = list @ map li_markup ts"
  by (induction ts arbitrary: list) simp_all

lemma renderCrosscheck_eq:
  "renderCrosscheck r d =
     \<lparr>overallBadge_text = toLowerCase (or_else (overall r) ''mixed''),
      overallBadge_class =
        [''badge'',
         if toLowerCase (or_else (overall r) ''mixed'') = ''pass'' then ''pass''
         else if toLowerCase (or_else (overall r) ''mixed'') = ''fail'' then ''fail''
         else ''mixed''],
      countPass_text = show_int (counts_pass r) @ '' passed'',
      countFail_text = show_int (counts_fail r) @ '' failed'',
      crossSummary_text = summary r,
      testList = map li_markup (tests r),
      modalOverlay_hidden = False\<rparr>"
  by (simp add: renderCrosscheck_def Let_def openCrossModal_def classList_add_def or_else_def
      append_tests_eq)

text \<open>
  C8. Rendering a report over its own rendering changes nothing; more than that, the
  modal after a render does not depend on what it showed before, so nothing of a
  previous report leaks, and the list holds one entry for each test of the report,
  in order, and no other.
\<close>

theorem render_is_idempotent:
  "renderCrosscheck r (renderCrosscheck r d) = renderCrosscheck r d \<and>
   renderCrosscheck r (renderCrosscheck r' d) = renderCrosscheck r d \<and>
   testList (renderCrosscheck r d) = map li_markup (tests r)"
  by (simp add: renderCrosscheck_eq)

section \<open>Escaped text as markup\<close>

lemma foldr_emit_Some: "foldr emit ts (Some us) = Some (ts @ us)"
  by (induction ts) simp_all

lemma normalize_newlines_Cons:
  "c \<noteq> CHR 0x0D \<Longrightarrow> normalize_newlines (c # cs) = c # normalize_newlines cs"
  by (cases cs) simp_all

lemma normalize_newlines_append:
  "c \<noteq> CHR 0x0A \<Longrightarrow>
   normalize_newlines (a @ c # b) = normalize_newlines a @ normalize_newlines (c # b)"
  by (induction a rule: normalize_newlines.induct) simp_all

lemma normalize_newlines_id: "CHR 0x0D \<notin> set s \<Longrightarrow> normalize_newlines s = s"
  by (induction s) (auto simp: normalize_newlines_Cons)

lemma escapeHtml_Cons:
  "escapeHtml (c # cs) =
     (if c = CHR ''&'' then ''&amp;'' @ escapeHtml cs
      else if c = CHR ''<'' then ''&lt;'' @ escapeHtml cs
      else if c = CHR ''>'' then ''&gt;'' @ escapeHtml cs
      else if c = CHR 0x22 then ''&quot;'' @ escapeHtml cs
      else c # escapeHtml cs)"
  by (auto simp: in_class_def replacement_def entity_table_def)

lemma normalize_newlines_escapeHtml:
  "normalize_newlines (escapeHtml s) = escapeHtml (normalize_newlines s)"
proof (induction s rule: normalize_newlines.induct)
  case 1
  show ?case by simp
next
  case (2 c)
  show ?case
    by (simp add: escapeHtml_Cons del: escapeHtml.simps(2))
next
  case (3 c d cs)
  show ?case
  proof (cases "c = CHR 0x0D")
    case True
    show ?thesis
    proof (cases "d = CHR 0x0A")
      case True
      with \<open>c = CHR 0x0D\<close> 3(1) show ?thesis
        by (simp add: escapeHtml_Cons del: escapeHtml.simps(2))
    next
      case False
      then have "\<exists>e es. escapeHtml (d # cs) = e # es \<and> e \<noteq> CHR 0x0A"
        by (simp add: escapeHtml_Cons del: escapeHtml.simps(2))
      then obtain e es where e: "escapeHtml (d # cs) = e # es" "e \<noteq> CHR 0x0A"
        by blast
      have "normalize_newlines (escapeHtml (c # d # cs)) =
              CHR 0x0A # normalize_newlines (escapeHtml (d # cs))"
        using \<open>c = CHR 0x0D\<close> e
        by (simp add: escapeHtml_Cons [of "CHR 0x0D"] del: escapeHtml.simps(2))
      also have "\<dots> = escapeHtml (normalize_newlines (c # d # cs))"
        using \<open>c = CHR 0x0D\<close> False 3(2)
        by (simp add: escapeHtml_Cons [of "CHR 0x0A"] del: escapeHtml.simps(2))
      finally show ?thesis .
    qed
  next
    case False
    with 3(3) show ?thesis
      by (simp add: escapeHtml_Cons [of c] normalize_newlines_Cons del: escapeHtml.simps(2))
  qed
qed

lemma tokens_escaped:
  "tokens Data (escapeHtml s @ rest) = foldr emit (map TChar s) (tokens Data rest)"
proof (induction s)
  case Nil
  show ?case by simp
next
  case (Cons c s)
  show ?case
    by (simp add: escapeHtml_Cons is_alnum_def char_ref_def Cons.IH del: escapeHtml.simps(2))
qed

lemma tokens_attr_value:
  "CHR 0x22 \<notin> set v \<Longrightarrow> CHR ''&'' \<notin> set v \<Longrightarrow> CHR 0x00 \<notin> set v \<Longrightarrow>
   tokens (AttrValue n as a u) (v @ CHR 0x22 # rest) =
   tokens (AfterAttrValue n (as @ [(a, u @ v)])) rest"
  by (induction v arbitrary: u) auto

lemma build_text:
  "build (map TChar s @ ts) st acc =
     build ts st (rev (map Txt (filter (\<lambda>c. c \<noteq> CHR 0x00) s)) @ acc)"
  by (induction s arbitrary: acc) simp_all

lemma normalize_li_markup:
  assumes "CHR 0x0D \<notin> set st" and "st = toLowerCase (or_else (status t) ''fail'')"
  shows "normalize_newlines (li_markup t) =
           nl6 @ ''<span class='' @ [CHR 0x22] @ ''dot '' @ st @ [CHR 0x22] @ ''></span>'' @
           nl6 @ ''<span class='' @ [CHR 0x22] @ ''name'' @ [CHR 0x22] @ ''>'' @
             escapeHtml (normalize_newlines (or_else (name t) ''Test'')) @ ''</span>'' @
           nl6 @ ''<span class='' @ [CHR 0x22] @ ''desc'' @ [CHR 0x22] @ ''>'' @
             escapeHtml (normalize_newlines (description t)) @ ''</span>'' @
           nl6 @ ''<span class='' @ [CHR 0x22] @ ''reason'' @ [CHR 0x22] @ ''>'' @
             escapeHtml (normalize_newlines (reason t)) @ ''</span>'' @
           nl4"
  using assms(1) unfolding assms(2) [symmetric] li_markup_def Let_def
  by (simp add: nl6_def nl4_def normalize_newlines_Cons normalize_newlines_append
      normalize_newlines_escapeHtml normalize_newlines_id or_else_def)

lemma tokens_li_markup:
  assumes "CHR 0x22 \<notin> set st" and "CHR ''&'' \<notin> set st" and "CHR 0x00 \<notin> set st"
      and "CHR 0x0D \<notin> set st"
      and "st = toLowerCase (or_else (status t) ''fail'')"
  shows "tokens Data (normalize_newlines (li_markup t)) =
           Some (map TChar nl6 @ [TStart ''span'' [(''class'', ''dot '' @ st)], TEnd ''span''] @
                 map TChar nl6 @ [TStart ''span'' [(''class'', ''name'')]] @
                   map TChar (normalize_newlines (or_else (name t) ''Test'')) @ [TEnd ''span''] @
                 map TChar nl6 @ [TStart ''span'' [(''class'', ''desc'')]] @
                   map TChar (normalize_newlines (description t)) @ [TEnd ''span''] @
                 map TChar nl6 @ [TStart ''span'' [(''class'', ''reason'')]] @
                   map TChar (normalize_newlines (reason t)) @ [TEnd ''span''] @
                 map TChar nl4)"
  using assms(1,2,3) unfolding normalize_li_markup [OF assms(4,5)]
  by (simp add: nl6_def nl4_def tokens_escaped tokens_attr_value is_alpha_def is_alnum_def
      is_html_space_def lower_char_def foldr_emit_Some)

lemma parse_li_markup:
  assumes "CHR 0x22 \<notin> set st" and "CHR ''&'' \<notin> set st" and "CHR 0x00 \<notin> set st"
      and "CHR 0x0D \<notin> set st"
      and "st = toLowerCase (or_else (status t) ''fail'')"
  shows "parse_fragment (li_markup t) =
           Some (map Txt nl6 @ [Elem ''span'' [(''class'', ''dot '' @ st)] []] @
                 map Txt nl6 @
                   [Elem ''span'' [(''class'', ''name'')]
                      (map Txt (filter (\<lambda>c. c \<noteq> CHR 0x00)
                         (normalize_newlines (or_else (name t) ''Test''))))] @
                 map Txt nl6 @
                   [Elem ''span'' [(''class'', ''desc'')]
                      (map Txt (filter (\<lambda>c. c \<noteq> CHR 0x00)
                         (normalize_newlines (description t))))] @
                 map Txt nl6 @
                   [Elem ''span'' [(''class'', ''reason'')]
                      (map Txt (filter (\<lambda>c. c \<noteq> CHR 0x00)
                         (normalize_newlines (reason t))))] @
                 map Txt nl4)"
  unfolding parse_fragment_def tokens_li_markup [OF assms]
  by (simp add: nl6_def nl4_def build_text)

lemma elements_text: "concat (map (elements \<circ> Txt) s) = []"
  by (induction s) simp_all

lemma textContent_text: "concat (map (textContent \<circ> Txt) s) = s"
  by (induction s) simp_all

lemma lower_pass_fail:
  "toLowerCase ''pass'' = ''pass''" "toLowerCase ''fail'' = ''fail''"
  "toLowerCase ''mixed'' = ''mixed''"
  by (simp_all add: toLowerCase_def lower_char_def)

lemma parse_entry:
  assumes "status t = ''pass'' \<or> status t = ''fail''"
  shows "parse_fragment (li_markup t) =
           Some (map Txt nl6 @ [Elem ''span'' [(''class'', ''dot '' @ status t)] []] @
                 map Txt nl6 @
                   [Elem ''span'' [(''class'', ''name'')]
                      (map Txt (filter (\<lambda>c. c \<noteq> CHR 0x00)
                         (normalize_newlines (or_else (name t) ''Test''))))] @
                 map Txt nl6 @
                   [Elem ''span'' [(''class'', ''desc'')]
                      (map Txt (filter (\<lambda>c. c \<noteq> CHR 0x00)
                         (normalize_newlines (description t))))] @
                 map Txt nl6 @
                   [Elem ''span'' [(''class'', ''reason'')]
                      (map Txt (filter (\<lambda>c. c \<noteq> CHR 0x00)
                         (normalize_newlines (reason t))))] @
                 map Txt nl4)"
proof -
  have st: "toLowerCase (or_else (status t) ''fail'') = status t"
    using assms by (auto simp: or_else_def lower_pass_fail)
  have "CHR 0x22 \<notin> set (status t)" and "CHR ''&'' \<notin> set (status t)"
    and "CHR 0x00 \<notin> set (status t)" and "CHR 0x0D \<notin> set (status t)"
    using assms by auto
  then show ?thesis
    using parse_li_markup [of "status t" t] st by simp
qed

lemma entry_elements:
  assumes "status t = ''pass'' \<or> status t = ''fail''"
      and "parse_fragment (li_markup t) = Some kids"
  shows "map classList (concat (map elements kids)) =
           [[''dot'', status t], [''name''], [''desc''], [''reason'']]"
    and "text_of (querySelector ''name'' (li_element kids)) =
           filter (\<lambda>c. c \<noteq> CHR 0x00) (normalize_newlines (or_else (name t) ''Test''))"
    and "text_of (querySelector ''desc'' (li_element kids)) =
           filter (\<lambda>c. c \<noteq> CHR 0x00) (normalize_newlines (description t))"
    and "text_of (querySelector ''reason'' (li_element kids)) =
           filter (\<lambda>c. c \<noteq> CHR 0x00) (normalize_newlines (reason t))"
    and "map_option classList (querySelector ''dot'' (li_element kids)) = Some [''dot'', status t]"
    and "filter (has_class ''test'') (elements (li_element kids)) = [li_element kids]"
  using assms(1) assms(2) [unfolded parse_entry [OF assms(1)]]
  by (auto simp: nl6_def nl4_def elements_text
      textContent_text is_html_space_def querySelector_def li_element_def has_class_def
      text_of_def)

lemma escapeHtml_by_character:
  "escapeHtml s =
     concat (map (\<lambda>c. if c = CHR ''&'' then ''&amp;''
                       else if c = CHR ''<'' then ''&lt;''
                       else if c = CHR ''>'' then ''&gt;''
                       else if c = CHR 0x22 then ''&quot;''
                       else [c]) s)"
  by (induction s) (auto simp: in_class_def replacement_def entity_table_def)

lemma parse_escaped:
  "parse_fragment (escapeHtml s) =
     Some (map Txt (filter (\<lambda>c. c \<noteq> CHR 0x00) (normalize_newlines s)))"
  using tokens_escaped [of "normalize_newlines s" "[]"]
    build_text [of "normalize_newlines s" "[]" "[]" "[]"]
  by (simp add: parse_fragment_def foldr_emit_Some normalize_newlines_escapeHtml)

lemma unchanged_by_the_parser:
  "CHR 0x0D \<notin> set s \<Longrightarrow> CHR 0x00 \<notin> set s \<Longrightarrow>
   filter (\<lambda>c. c \<noteq> CHR 0x00) (normalize_newlines s) = s"
  by (auto simp: normalize_newlines_id filter_id_conv)

lemma entry_read_back:
  assumes "status t = ''pass'' \<or> status t = ''fail''"
  shows "\<exists>kids. parse_fragment (li_markup t) = Some kids \<and>
           map classList (concat (map elements kids)) =
             [[''dot'', status t], [''name''], [''desc''], [''reason'']] \<and>
           text_of (querySelector ''name'' (li_element kids)) =
             filter (\<lambda>c. c \<noteq> CHR 0x00) (normalize_newlines (or_else (name t) ''Test'')) \<and>
           text_of (querySelector ''desc'' (li_element kids)) =
             filter (\<lambda>c. c \<noteq> CHR 0x00) (normalize_newlines (description t)) \<and>
           text_of (querySelector ''reason'' (li_element kids)) =
             filter (\<lambda>c. c \<noteq> CHR 0x00) (normalize_newlines (reason t))"
  using entry_elements [OF assms] parse_entry [OF assms] by blast

text \<open>
  C10, as the script has it. \<open>escapeHtml\<close> replaces each of the four characters \<^verbatim>\<open>&\<close>,
  \<^verbatim>\<open><\<close>, \<^verbatim>\<open>>\<close> and the double quote by its entity and keeps every other character. The
  escaped text of any string \<open>s\<close> is read by the parser as character data only, no
  element comes out of it, and the characters read are those of \<open>s\<close> after the
  parser's preprocessing: with one LF for every CR LF and every other CR, and
  without the NUL characters; so they are \<open>s\<close> itself when \<open>s\<close> holds no CR and no NUL.
  Every entry of the rendered list is the template filled from one test. In an
  entry whose status is a value of the data model, \<open>pass\<close> or \<open>fail\<close>, whatever the
  name, description and reason are, there are exactly the four \<open>span\<close> elements of
  the template, and the texts read back from the name, description and reason
  elements are, in that same sense, the strings that went through \<open>escapeHtml\<close>:
  the name, or \<^verbatim>\<open>Test\<close> in place of an empty name, the description and the reason.
\<close>

theorem escapeHtml_neutralises_markup:
  "escapeHtml s =
     concat (map (\<lambda>c. if c = CHR ''&'' then ''&amp;''
                       else if c = CHR ''<'' then ''&lt;''
                       else if c = CHR ''>'' then ''&gt;''
                       else if c = CHR 0x22 then ''&quot;''
                       else [c]) s) \<and>
   parse_fragment (escapeHtml s) =
     Some (map Txt (filter (\<lambda>c. c \<noteq> CHR 0x00) (normalize_newlines s))) \<and>
   (CHR 0x0D \<notin> set s \<and> CHR 0x00 \<notin> set s \<longrightarrow>
      parse_fragment (escapeHtml s) = Some (map Txt s)) \<and>
   testList (renderCrosscheck r d) = map li_markup (tests r) \<and>
   (status t = ''pass'' \<or> status t = ''fail'' \<longrightarrow>
      (\<exists>kids. parse_fragment (li_markup t) = Some kids \<and>
         map classList (concat (map elements kids)) =
           [[''dot'', status t], [''name''], [''desc''], [''reason'']] \<and>
         text_of (querySelector ''name'' (li_element kids)) =
           filter (\<lambda>c. c \<noteq> CHR 0x00) (normalize_newlines (or_else (name t) ''Test'')) \<and>
         text_of (querySelector ''desc'' (li_element kids)) =
           filter (\<lambda>c. c \<noteq> CHR 0x00) (normalize_newlines (description t)) \<and>
         text_of (querySelector ''reason'' (li_element kids)) =
           filter (\<lambda>c. c \<noteq> CHR 0x00) (normalize_newlines (reason t))))"
proof (intro conjI impI)
  show "escapeHtml s =
     concat (map (\<lambda>c. if c = CHR ''&'' then ''&amp;''
                       else if c = CHR ''<'' then ''&lt;''
                       else if c = CHR ''>'' then ''&gt;''
                       else if c = CHR 0x22 then ''&quot;''
                       else [c]) s)"
    by (rule escapeHtml_by_character)
  show "parse_fragment (escapeHtml s) =
     Some (map Txt (filter (\<lambda>c. c \<noteq> CHR 0x00) (normalize_newlines s)))"
    by (rule parse_escaped)
  show "parse_fragment (escapeHtml s) = Some (map Txt s)"
    if "CHR 0x0D \<notin> set s \<and> CHR 0x00 \<notin> set s"
    using that by (simp add: parse_escaped unchanged_by_the_parser)
  show "testList (renderCrosscheck r d) = map li_markup (tests r)"
    by (simp add: renderCrosscheck_eq)
  show "\<exists>kids. parse_fragment (li_markup t) = Some kids \<and>
         map classList (concat (map elements kids)) =
           [[''dot'', status t], [''name''], [''desc''], [''reason'']] \<and>
         text_of (querySelector ''name'' (li_element kids)) =
           filter (\<lambda>c. c \<noteq> CHR 0x00) (normalize_newlines (or_else (name t) ''Test'')) \<and>
         text_of (querySelector ''desc'' (li_element kids)) =
           filter (\<lambda>c. c \<noteq> CHR 0x00) (normalize_newlines (description t)) \<and>
         text_of (querySelector ''reason'' (li_element kids)) =
           filter (\<lambda>c. c \<noteq> CHR 0x00) (normalize_newlines (reason t))"
    if "status t = ''pass'' \<or> status t = ''fail''"
    using that by (rule entry_read_back)
qed

theorem escapeHtml_neutralises_markup_witness:
  "escapeHtml ''<b>&'' = ''&lt;b&gt;&amp;'' \<and>
   CHR 0x0D \<notin> set ''<b>&'' \<and> CHR 0x00 \<notin> set ''<b>&'' \<and>
   parse_fragment (escapeHtml ''<b>&'') = Some (map Txt ''<b>&'') \<and>
   status hostile_test = ''fail'' \<and>
   (\<exists>kids.
      parse_fragment (li_markup hostile_test) = Some kids \<and>
      map classList (concat (map elements kids)) =
        [[''dot'', ''fail''], [''name''], [''desc''], [''reason'']] \<and>
      text_of (querySelector ''name'' (li_element kids)) = name hostile_test \<and>
      text_of (querySelector ''desc'' (li_element kids)) = ''a & b'' @ [CHR 0x0A] @ ''<c>'' \<and>
      text_of (querySelector ''reason'' (li_element kids)) = ''<i>'')"
proof -
  note th = escapeHtml_neutralises_markup [of "''<b>&''" passing closed_modal hostile_test]
  have e: "escapeHtml ''<b>&'' = ''&lt;b&gt;&amp;''"
    by (simp add: in_class_def replacement_def entity_table_def)
  have c: "CHR 0x0D \<notin> set ''<b>&''" "CHR 0x00 \<notin> set ''<b>&''"
    by simp_all
  have p: "parse_fragment (escapeHtml ''<b>&'') = Some (map Txt ''<b>&'')"
    using th [THEN conjunct2, THEN conjunct2, THEN conjunct1] c by blast
  have s: "status hostile_test = ''fail''"
    by (simp add: hostile_test_def)
  have f: "filter (\<lambda>c. c \<noteq> CHR 0x00)
             (normalize_newlines (or_else (name hostile_test) ''Test'')) = name hostile_test"
    "filter (\<lambda>c. c \<noteq> CHR 0x00) (normalize_newlines (description hostile_test)) =
       ''a & b'' @ [CHR 0x0A] @ ''<c>''"
    "filter (\<lambda>c. c \<noteq> CHR 0x00) (normalize_newlines (reason hostile_test)) = ''<i>''"
    by (simp_all add: hostile_test_def or_else_def)
  from th [THEN conjunct2, THEN conjunct2, THEN conjunct2, THEN conjunct2] s
  have k: "\<exists>kids. parse_fragment (li_markup hostile_test) = Some kids \<and>
      map classList (concat (map elements kids)) =
        [[''dot'', ''fail''], [''name''], [''desc''], [''reason'']] \<and>
      text_of (querySelector ''name'' (li_element kids)) = name hostile_test \<and>
      text_of (querySelector ''desc'' (li_element kids)) = ''a & b'' @ [CHR 0x0A] @ ''<c>'' \<and>
      text_of (querySelector ''reason'' (li_element kids)) = ''<i>''"
    unfolding f by simp
  show ?thesis
    by (intro conjI e c p s k)
qed

text \<open>
  C10 as stated fails for an empty name: the script escapes and displays the text
  \<^verbatim>\<open>Test\<close> in its place, so the name read back from the modal is not the original
  string.
\<close>

theorem empty_name_is_displayed_as_Test:
  "name nameless_test = [] \<and>
   map_option tests
     (extract_report (renderCrosscheck (passing\<lparr>tests := [nameless_test]\<rparr>) closed_modal)) =
     Some [nameless_test\<lparr>name := ''Test''\<rparr>]"
  by code_simp

text \<open>
  The status is the one part of the template that does not go through \<open>escapeHtml\<close>.
  A status outside the data model can close the class attribute and the element:
  the entry of the test below holds five elements, one of them of class \<open>test\<close>,
  and the report read back from the modal has two tests.
\<close>

lemma unescaped_status_adds_an_element:
  "map_option tests
     (extract_report (renderCrosscheck (passing\<lparr>tests := [injecting_test]\<rparr>) closed_modal)) =
     Some [\<lparr>name = ''t1'', description = [], status = ''fail'', reason = []\<rparr>,
           \<lparr>name = [], description = [], status = ''fail'', reason = []\<rparr>]"
  by code_simp

section \<open>Rendering and reading back\<close>




text \<open>
  A text with a CR or a NUL is degenerate in this sense. The parser reads the
  description \<^verbatim>\<open>a\<close> CR LF \<^verbatim>\<open>b\<close> as \<^verbatim>\<open>a\<close> LF \<^verbatim>\<open>b\<close> and the reason \<^verbatim>\<open>x\<close> NUL \<^verbatim>\<open>y\<close> CR \<^verbatim>\<open>z\<close> as
  \<^verbatim>\<open>xy\<close> LF \<^verbatim>\<open>z\<close>, and that is what is read back.
\<close>

lemma carriage_return_is_read_back_as_line_feed:
  "map_option tests
     (extract_report (renderCrosscheck (passing\<lparr>tests := [two_line_test]\<rparr>) closed_modal)) =
     Some [\<lparr>name = ''t1'', description = ''a'' @ [CHR 0x0A] @ ''b'', status = ''pass'',
            reason = ''xy'' @ [CHR 0x0A] @ ''z''\<rparr>]"
  by code_simp



end
